theory Spec2Isabelle
  imports Complex_Main
begin

section \<open>JavaScript strings and the regular expressions of the engine\<close>

text \<open>
  A JavaScript string is a sequence of UTF-16 code units; \<open>length\<close>, indexing,
  \<open>substring\<close> and the character classes of the regular expressions all work on code
  units. A code unit is modelled as its number, so that the en dash (8211) and the em dash
  (8212) of the punctuation patterns are ordinary characters. \<open>js\<close> turns an ASCII
  literal into such a string.
\<close>

type_synonym jschar = nat
type_synonym jsstring = "jschar list"

definition js :: "string \<Rightarrow> jsstring" where
  "js s = map of_char s"

definition isDigit :: "jschar \<Rightarrow> bool" where
  "isDigit c = (48 \<le> c \<and> c \<le> 57)"

definition isUpper :: "jschar \<Rightarrow> bool" where
  "isUpper c = (65 \<le> c \<and> c \<le> 90)"

definition isLower :: "jschar \<Rightarrow> bool" where
  "isLower c = (97 \<le> c \<and> c \<le> 122)"

text \<open>The class \<open>\w\<close> is \<open>[A-Za-z0-9_]\<close>.\<close>

definition isWordChar :: "jschar \<Rightarrow> bool" where
  "isWordChar c = (isUpper c \<or> isLower c \<or> isDigit c \<or> c = 95)"

text \<open>
  The class \<open>\s\<close>: tab, line feed, vertical tab, form feed, carriage return, space,
  no-break space, the Unicode space separators, the line and paragraph separators and the
  byte order mark.
\<close>

definition isSpace :: "jschar \<Rightarrow> bool" where
  "isSpace c = ((9 \<le> c \<and> c \<le> 13) \<or> c = 32 \<or> c = 160 \<or> c = 5760 \<or>
     (8192 \<le> c \<and> c \<le> 8202) \<or> c = 8232 \<or> c = 8233 \<or> c = 8239 \<or> c = 8287 \<or>
     c = 12288 \<or> c = 65279)"

text \<open>The dot of a regular expression matches everything but a line terminator.\<close>

definition isLineTerminator :: "jschar \<Rightarrow> bool" where
  "isLineTerminator c = (c = 10 \<or> c = 13 \<or> c = 8232 \<or> c = 8233)"

text \<open>
  \<open>toLowerCase\<close>. The ASCII capitals move down by 32. Two code units outside ASCII
  have a lower case that contains an ASCII letter: the capital I with dot above (304)
  becomes \<open>i\<close> followed by the combining dot (775), and the Kelvin sign (8490) becomes
  \<open>k\<close>. Every other code unit outside ASCII has a lower case outside ASCII; the callers
  either lower-case an ASCII string or strip everything outside \<open>\w\<close> right afterwards,
  so such units are left as they are.
\<close>

definition lowerUnit :: "jschar \<Rightarrow> jsstring" where
  "lowerUnit c = (if isUpper c then [c + 32]
                  else if c = 304 then [105, 775]
                  else if c = 8490 then [107]
                  else [c])"

definition toLowerCase :: "jsstring \<Rightarrow> jsstring" where
  "toLowerCase w = concat (map lowerUnit w)"

text \<open>\<open>word.replace(/[^\w]/g, '')\<close> keeps the characters of \<open>\w\<close>.\<close>

definition stripNonWord :: "jsstring \<Rightarrow> jsstring" where
  "stripNonWord w = filter isWordChar w"

text \<open>
  \<open>word.replace(/[^\w'-]/g, '').toLowerCase()\<close>, the normalised word of the analyzer:
  the apostrophe (39) and the hyphen (45) survive next to \<open>\w\<close>.
\<close>

definition cleanWordOf :: "jsstring \<Rightarrow> jsstring" where
  "cleanWordOf w = toLowerCase (filter (\<lambda>c. isWordChar c \<or> c = 39 \<or> c = 45) w)"

text \<open>\<open>/[.!?]+$/\<close>: the string ends with one of the three terminators.\<close>

definition sentenceEnd_test :: "jsstring \<Rightarrow> bool" where
  "sentenceEnd_test w = (w \<noteq> [] \<and> last w \<in> set (js ''.!?''))"

text \<open>\<open>/[,;:\-\<dots>]/\<close>: a comma, semicolon, colon, hyphen, en dash or em dash anywhere.\<close>

definition clauseBoundaries_test :: "jsstring \<Rightarrow> bool" where
  "clauseBoundaries_test w = (\<exists>c \<in> set w. c \<in> set (js '',;:-'') \<or> c = 8211 \<or> c = 8212)"

text \<open>\<open>/[.!?]$/\<close> and \<open>/[,;:\<dots>-]$/\<close> of the playback engine.\<close>

definition endPunctuation_test :: "jsstring \<Rightarrow> bool" where
  "endPunctuation_test w = (w \<noteq> [] \<and> last w \<in> set (js ''.!?''))"

definition midPunctuation_test :: "jsstring \<Rightarrow> bool" where
  "midPunctuation_test w =
     (w \<noteq> [] \<and> (last w \<in> set (js '',;:-'') \<or> last w = 8211 \<or> last w = 8212))"

text \<open>
  \<open>dotStarThen P k w\<close>: the pattern \<open>.*[P]\<close> followed by the pattern \<open>k\<close> matches
  at the start of \<open>w\<close>. \<open>searchFrom m w\<close>: the pattern \<open>m\<close> matches at some position
  of \<open>w\<close>, as \<open>RegExp.test\<close> searches.
\<close>

fun dotStarThen :: "(jschar \<Rightarrow> bool) \<Rightarrow> (jsstring \<Rightarrow> bool) \<Rightarrow> jsstring \<Rightarrow> bool" where
  "dotStarThen P k [] = False"
| "dotStarThen P k (c # cs) = ((P c \<and> k cs) \<or> (\<not> isLineTerminator c \<and> dotStarThen P k cs))"

fun searchFrom :: "(jsstring \<Rightarrow> bool) \<Rightarrow> jsstring \<Rightarrow> bool" where
  "searchFrom m [] = m []"
| "searchFrom m (c # cs) = (m (c # cs) \<or> searchFrom m cs)"

definition startsWith :: "(jschar \<Rightarrow> bool) \<Rightarrow> (jsstring \<Rightarrow> bool) \<Rightarrow> jsstring \<Rightarrow> bool" where
  "startsWith P k w = (case w of [] \<Rightarrow> False | c # cs \<Rightarrow> P c \<and> k cs)"

text \<open>\<open>/[A-Z].*[a-z].*[A-Z]|[a-z].*[A-Z]/\<close>\<close>

definition mixedCase_test :: "jsstring \<Rightarrow> bool" where
  "mixedCase_test w =
     (searchFrom (startsWith isUpper (dotStarThen isLower (dotStarThen isUpper (\<lambda>r. True)))) w \<or>
      searchFrom (startsWith isLower (dotStarThen isUpper (\<lambda>r. True))) w)"

text \<open>\<open>/^[A-Z]{2,}$/\<close>\<close>

definition allCaps_test :: "jsstring \<Rightarrow> bool" where
  "allCaps_test w = (2 \<le> length w \<and> (\<forall>c \<in> set w. isUpper c))"

text \<open>\<open>/\d/\<close> and \<open>/[@#$%&*+=<>]/\<close>\<close>

definition hasDigit_test :: "jsstring \<Rightarrow> bool" where
  "hasDigit_test w = (\<exists>c \<in> set w. isDigit c)"

definition hasSymbols_test :: "jsstring \<Rightarrow> bool" where
  "hasSymbols_test w = (\<exists>c \<in> set w. c \<in> set (js ''@#$%&*+=<>''))"

section \<open>The optimal recognition point\<close>

record ORP =
  prefix :: jsstring
  focus :: jsstring
  suffix :: jsstring

text \<open>
  The loop of \<open>calculateAdaptiveORP\<close> and \<open>calculateORP\<close> that maps the index into the
  clean word back to an index into the original word:
  \<^verbatim>\<open>while (cleanIndex < orpIndex && actualIndex < word.length) {
    if (/\w/.test(word[actualIndex])) cleanIndex++;
    actualIndex++; }\<close>
\<close>

function orpWalk :: "jsstring \<Rightarrow> int \<Rightarrow> nat \<Rightarrow> int \<Rightarrow> nat" where
  "orpWalk word orpIndex actualIndex cleanIndex =
     (if cleanIndex < orpIndex \<and> actualIndex < length word
      then orpWalk word orpIndex (actualIndex + 1)
             (if isWordChar (word ! actualIndex) then cleanIndex + 1 else cleanIndex)
      else actualIndex)"
  by pat_completeness auto
termination
  by (relation "measure (\<lambda>(word, orpIndex, actualIndex, cleanIndex). length word - actualIndex)")
     auto

declare orpWalk.simps [simp del]

text \<open>The base index into the clean word, from its length.\<close>

definition baseOrpIndex :: "nat \<Rightarrow> int" where
  "baseOrpIndex len = (if len \<le> 4 then 1 else if len \<le> 8 then 2 else if len \<le> 12 then 3
                       else int (len div 4))"

text \<open>
  The split of the original word at \<open>actualIndex\<close>: \<open>word.substring(0, actualIndex)\<close>,
  \<open>word[actualIndex] || ''\<close> and \<open>word.substring(actualIndex + 1)\<close>.
\<close>

definition splitAt :: "jsstring \<Rightarrow> nat \<Rightarrow> ORP" where
  "splitAt word actualIndex =
     \<lparr>prefix = take actualIndex word,
      focus = (if actualIndex < length word then [word ! actualIndex] else []),
      suffix = drop (actualIndex + 1) word\<rparr>"

text \<open>
  \<open>CognitiveEngine.calculateAdaptiveORP(word, analysis)\<close>; the second argument is
  \<open>analysis.orpOffset || 0\<close>. In the branch for a clean length of 2 the source indexes
  the original word: \<open>{ prefix: word[0], focus: word[1], suffix: '' }\<close>; the clean word
  has two characters there, so the original word has at least two.
\<close>

definition calculateAdaptiveORP :: "jsstring \<Rightarrow> int \<Rightarrow> ORP" where
  "calculateAdaptiveORP word orpOffset =
     (let len = length (stripNonWord word) in
      if len = 0 then \<lparr>prefix = [], focus = word, suffix = []\<rparr>
      else if len = 1 then \<lparr>prefix = [], focus = word, suffix = []\<rparr>
      else if len = 2 then \<lparr>prefix = [word ! 0], focus = [word ! 1], suffix = []\<rparr>
      else
        let orpIndex = baseOrpIndex len + orpOffset;
            orpIndex = max 0 (min (int len - 1) orpIndex)
        in splitAt word (orpWalk word orpIndex 0 0))"

text \<open>The fallback of \<open>SpeedReader.calculateORP\<close>, used when there is no analysis.\<close>

definition basicORP :: "jsstring \<Rightarrow> ORP" where
  "basicORP word =
     (let len = length (stripNonWord word) in
      if len = 0 then \<lparr>prefix = [], focus = word, suffix = []\<rparr>
      else if len = 1 then \<lparr>prefix = [], focus = word, suffix = []\<rparr>
      else if len = 2 then \<lparr>prefix = [word ! 0], focus = [word ! 1], suffix = []\<rparr>
      else splitAt word (orpWalk word (baseOrpIndex len) 0 0))"

section \<open>Numbers\<close>

text \<open>
  A number of the program is a real or \<open>NaN\<close>, the value that arithmetic gives for
  \<open>undefined\<close>. An operation with \<open>NaN\<close> as an argument gives \<open>NaN\<close>, \<open>Math.max\<close> and
  \<open>Math.min\<close> included; a comparison with \<open>NaN\<close> is false, and \<open>NaN\<close> and zero are false
  as a condition. On reals an operation is the one of the reals: the rounding of doubles
  and the infinities are not represented.
\<close>

datatype number = Num real | NaN

fun lift2 :: "(real \<Rightarrow> real \<Rightarrow> real) \<Rightarrow> number \<Rightarrow> number \<Rightarrow> number" where
  "lift2 f (Num a) (Num b) = Num (f a b)"
| "lift2 f (Num a) NaN = NaN"
| "lift2 f NaN y = NaN"

abbreviation numMul :: "number \<Rightarrow> number \<Rightarrow> number" where
  "numMul \<equiv> lift2 times"

abbreviation numAdd :: "number \<Rightarrow> number \<Rightarrow> number" where
  "numAdd \<equiv> lift2 plus"

abbreviation numSub :: "number \<Rightarrow> number \<Rightarrow> number" where
  "numSub \<equiv> lift2 minus"

abbreviation numDiv :: "number \<Rightarrow> number \<Rightarrow> number" where
  "numDiv \<equiv> lift2 divide"

abbreviation mathMax :: "number \<Rightarrow> number \<Rightarrow> number" where
  "mathMax \<equiv> lift2 max"

abbreviation mathMin :: "number \<Rightarrow> number \<Rightarrow> number" where
  "mathMin \<equiv> lift2 min"

text \<open>\<open>x < y\<close>, \<open>x <= y\<close> and \<open>x > y\<close> on numbers, and a number as a condition.\<close>

fun numLess :: "number \<Rightarrow> number \<Rightarrow> bool" where
  "numLess (Num a) (Num b) = (a < b)"
| "numLess (Num a) NaN = False"
| "numLess NaN y = False"

fun numLessEq :: "number \<Rightarrow> number \<Rightarrow> bool" where
  "numLessEq (Num a) (Num b) = (a \<le> b)"
| "numLessEq (Num a) NaN = False"
| "numLessEq NaN y = False"

fun isTruthy :: "number \<Rightarrow> bool" where
  "isTruthy (Num a) = (a \<noteq> 0)"
| "isTruthy NaN = False"

text \<open>\<open>Math.round\<close> rounds a half upwards; \<open>Math.round(NaN)\<close> is \<open>NaN\<close>.\<close>

definition mathRound :: "real \<Rightarrow> int" where
  "mathRound x = \<lfloor>x + 1 / 2\<rfloor>"

fun roundNumber :: "number \<Rightarrow> number" where
  "roundNumber (Num a) = Num (of_int (mathRound a))"
| "roundNumber NaN = NaN"

section \<open>The cognitive engine\<close>

subsection \<open>Linguistic tables\<close>

text \<open>The sets and the collocation catalogue of the constructor, in the source's order.\<close>

definition subordinators :: "jsstring list" where
  "subordinators = map js
    [''although'', ''because'', ''since'', ''while'', ''whereas'', ''unless'',
     ''until'', ''before'', ''after'', ''when'', ''whenever'', ''where'',
     ''wherever'', ''if'', ''though'', ''even'', ''provided'', ''assuming'']"

definition transitions :: "jsstring list" where
  "transitions = map js
    [''however'', ''therefore'', ''furthermore'', ''moreover'', ''nevertheless'',
     ''consequently'', ''meanwhile'', ''subsequently'', ''accordingly'',
     ''hence'', ''thus'', ''otherwise'', ''instead'', ''alternatively'']"

definition highFrequency :: "jsstring list" where
  "highFrequency = map js
    [''the'', ''a'', ''an'', ''is'', ''are'', ''was'', ''were'', ''be'', ''been'',
     ''being'', ''have'', ''has'', ''had'', ''do'', ''does'', ''did'', ''will'',
     ''would'', ''could'', ''should'', ''may'', ''might'', ''must'', ''shall'',
     ''can'', ''to'', ''of'', ''in'', ''for'', ''on'', ''with'', ''at'', ''by'',
     ''from'', ''as'', ''into'', ''through'', ''during'', ''before'', ''after'',
     ''above'', ''below'', ''between'', ''under'', ''again'', ''further'',
     ''then'', ''once'', ''here'', ''there'', ''when'', ''where'', ''why'', ''how'',
     ''all'', ''each'', ''few'', ''more'', ''most'', ''other'', ''some'', ''such'',
     ''no'', ''nor'', ''not'', ''only'', ''own'', ''same'', ''so'', ''than'', ''too'',
     ''very'', ''just'', ''also'', ''now'', ''and'', ''but'', ''or'', ''yet'', ''both'',
     ''it'', ''its'', ''this'', ''that'', ''these'', ''those'', ''i'', ''you'', ''he'',
     ''she'', ''we'', ''they'', ''me'', ''him'', ''her'', ''us'', ''them'', ''my'',
     ''your'', ''his'', ''our'', ''their'', ''what'', ''which'', ''who'', ''whom'']"

definition collocations :: "jsstring list list" where
  "collocations = map (map js)
    [ [''in'', ''order'', ''to''], [''as'', ''well'', ''as''], [''in'', ''front'', ''of''],
     [''in'', ''spite'', ''of''], [''on'', ''behalf'', ''of''], [''in'', ''terms'', ''of''],
     [''by'', ''means'', ''of''], [''in'', ''addition'', ''to''], [''with'', ''respect'', ''to''],
     [''on'', ''top'', ''of''], [''in'', ''case'', ''of''], [''at'', ''the'', ''same'', ''time''],
     [''on'', ''the'', ''other'', ''hand''], [''as'', ''a'', ''result''],
     [''for'', ''example''], [''for'', ''instance''], [''in'', ''other'', ''words''],
     [''that'', ''is''], [''in'', ''fact''], [''of'', ''course''], [''at'', ''least''],
     [''at'', ''last''], [''at'', ''first''], [''first'', ''of'', ''all''],
     [''going'', ''to''], [''used'', ''to''], [''have'', ''to''], [''has'', ''to''],
     [''want'', ''to''], [''need'', ''to''], [''able'', ''to''], [''ought'', ''to''],
     [''right'', ''now''], [''so'', ''far''], [''up'', ''to''], [''from'', ''now'', ''on'']]"

subsection \<open>Timing multipliers and reading modes\<close>

text \<open>The entries of \<open>this.timing\<close> that the analyzer reads.\<close>

definition timing_sentenceEnd :: real where "timing_sentenceEnd = 2.0"
definition timing_clauseBoundary :: real where "timing_clauseBoundary = 1.4"
definition timing_paragraphEnd :: real where "timing_paragraphEnd = 2.5"
definition timing_shortWord :: real where "timing_shortWord = 0.85"
definition timing_longWord :: real where "timing_longWord = 1.25"
definition timing_veryLongWord :: real where "timing_veryLongWord = 1.5"
definition timing_highFrequency :: real where "timing_highFrequency = 0.8"
definition timing_transition :: real where "timing_transition = 1.5"
definition timing_subordinator :: real where "timing_subordinator = 1.3"
definition timing_number :: real where "timing_number = 1.4"
definition timing_mixedCase :: real where "timing_mixedCase = 1.3"
definition timing_allCaps :: real where "timing_allCaps = 1.2"
definition timing_hasSymbols :: real where "timing_hasSymbols = 1.3"
definition timing_firstOccurrence :: real where "timing_firstOccurrence = 1.35"
definition timing_recentRepeat :: real where "timing_recentRepeat = 0.75"
definition timing_hyphenated :: real where "timing_hyphenated = 1.4"

text \<open>
  \<open>this.modes\<close> is an object literal with the four keys \<open>scan\<close>, \<open>normal\<close>, \<open>study\<close> and
  \<open>proofread\<close>. A read \<open>this.modes[name]\<close> finds these four entries and, along the
  prototype chain, the properties of \<open>Object.prototype\<close>, which are functions or objects
  and so true as a condition; for every other name the read gives \<open>undefined\<close>. A value
  of \<open>Mode\<close> is a name for which the read finds something, \<open>modeNames\<close> lists these names
  as the strings they are, and \<open>modeNamed\<close> is the lookup of a string.
\<close>

datatype ObjectProperty =
    Constructor | HasOwnProperty | IsPrototypeOf | PropertyIsEnumerable | ToLocaleString
  | ToString | ValueOf | Proto | DefineGetter | DefineSetter | LookupGetter | LookupSetter

datatype Mode = Scan | Normal | Study | Proofread | Inherited ObjectProperty

definition modeNames :: "(jsstring \<times> Mode) list" where
  "modeNames =
     [(js ''scan'', Scan), (js ''normal'', Normal), (js ''study'', Study),
      (js ''proofread'', Proofread),
      (js ''constructor'', Inherited Constructor),
      (js ''hasOwnProperty'', Inherited HasOwnProperty),
      (js ''isPrototypeOf'', Inherited IsPrototypeOf),
      (js ''propertyIsEnumerable'', Inherited PropertyIsEnumerable),
      (js ''toLocaleString'', Inherited ToLocaleString),
      (js ''toString'', Inherited ToString),
      (js ''valueOf'', Inherited ValueOf),
      (js ''__proto__'', Inherited Proto),
      (js ''__defineGetter__'', Inherited DefineGetter),
      (js ''__defineSetter__'', Inherited DefineSetter),
      (js ''__lookupGetter__'', Inherited LookupGetter),
      (js ''__lookupSetter__'', Inherited LookupSetter)]"

definition modeNamed :: "jsstring \<Rightarrow> Mode option" where
  "modeNamed name = map_of modeNames name"

record ModeConfig =
  baseMultiplier :: real
  punctuationSensitivity :: real
  complexityWeight :: real

text \<open>What \<open>this.modes[name]\<close> evaluates to: an entry of the table or a built-in.\<close>

datatype ModeEntry = OwnMode ModeConfig | Builtin ObjectProperty

fun modes :: "Mode \<Rightarrow> ModeEntry" where
  "modes Scan =
     OwnMode \<lparr>baseMultiplier = 0.7, punctuationSensitivity = 0.5, complexityWeight = 0.3\<rparr>"
| "modes Normal =
     OwnMode \<lparr>baseMultiplier = 1.0, punctuationSensitivity = 1.0, complexityWeight = 1.0\<rparr>"
| "modes Study =
     OwnMode \<lparr>baseMultiplier = 1.4, punctuationSensitivity = 1.3, complexityWeight = 1.5\<rparr>"
| "modes Proofread =
     OwnMode \<lparr>baseMultiplier = 1.8, punctuationSensitivity = 1.5, complexityWeight = 1.8\<rparr>"
| "modes (Inherited p) = Builtin p"

text \<open>
  \<open>mode.baseMultiplier\<close> and \<open>mode.complexityWeight\<close> as numbers: a built-in has no such
  property, the read gives \<open>undefined\<close>, and \<open>undefined\<close> in arithmetic is \<open>NaN\<close>.
\<close>

fun modeField :: "(ModeConfig \<Rightarrow> real) \<Rightarrow> ModeEntry \<Rightarrow> number" where
  "modeField f (OwnMode c) = Num (f c)"
| "modeField f (Builtin p) = NaN"

definition recentWindowSize :: nat where
  "recentWindowSize = 25"

subsection \<open>State of the engine\<close>

text \<open>
  \<open>this.fatigue\<close> and \<open>this.comprehension\<close>. Times are milliseconds as \<open>Date.now()\<close>
  gives them; \<open>null\<close> is \<open>None\<close>. The start time of the fatigue object is
  \<open>f_startTime\<close>, since the playback engine has a \<open>startTime\<close> of its own.
\<close>

record Fatigue =
  f_startTime :: "int option"
  wordsRead :: nat
  rewinds :: nat
  pauses :: nat
  lastPauseTime :: "int option"
  fatigueLevel :: real
  autoSlowdownApplied :: real

record Comprehension =
  rewindCount :: nat
  pauseCount :: nat
  hesitationEvents :: "unit list"
  avgPauseDuration :: real

record CognitiveEngine =
  currentMode :: Mode
  conceptMemory :: "jsstring \<rightharpoonup> nat"
  recentWords :: "jsstring list"
  fatigue :: Fatigue
  comprehension :: Comprehension

definition freshFatigue :: Fatigue where
  "freshFatigue = \<lparr>f_startTime = None, wordsRead = 0, rewinds = 0, pauses = 0,
     lastPauseTime = None, fatigueLevel = 0, autoSlowdownApplied = 0\<rparr>"

definition freshComprehension :: Comprehension where
  "freshComprehension = \<lparr>rewindCount = 0, pauseCount = 0, hesitationEvents = [],
     avgPauseDuration = 0\<rparr>"

text \<open>
  \<open>new CognitiveEngine()\<close> and \<open>reset()\<close>; the reset keeps the reading mode. The field
  \<open>currentMode\<close> is written by the constructor and by \<open>setMode\<close> only, so it always holds
  a name of \<open>Mode\<close>.
\<close>

definition newCognitiveEngine :: CognitiveEngine where
  "newCognitiveEngine = \<lparr>currentMode = Normal, conceptMemory = Map.empty, recentWords = [],
     fatigue = freshFatigue, comprehension = freshComprehension\<rparr>"

definition reset :: "CognitiveEngine \<Rightarrow> CognitiveEngine" where
  "reset e = e\<lparr>conceptMemory := Map.empty, recentWords := [],
     fatigue := freshFatigue, comprehension := freshComprehension\<rparr>"

text \<open>
  \<open>setMode(mode)\<close>: \<open>if (this.modes[mode]) { this.currentMode = mode; return
  this.modes[mode]; } return null;\<close>. The test succeeds for every name that the read
  finds, the inherited ones included.
\<close>

definition setMode :: "jsstring \<Rightarrow> CognitiveEngine \<Rightarrow> ModeEntry option \<times> CognitiveEngine" where
  "setMode name e =
     (case modeNamed name of
        Some m \<Rightarrow> (Some (modes m), e\<lparr>currentMode := m\<rparr>)
      | None \<Rightarrow> (None, e))"

subsection \<open>Tokens and collocations\<close>

record Collocation =
  c_words :: "jsstring list"
  c_length :: nat
  c_display :: jsstring

text \<open>
  A token of \<open>preprocessText\<close>. The playback engine falls back to \<open>{ word, index }\<close>
  when it has no token; the fields such a token lacks are \<open>None\<close>, and its
  \<open>isLastInParagraph\<close>, which the analyzer only tests for truth, is \<open>False\<close>.
\<close>

record Token =
  word :: jsstring
  index :: int
  paragraphIndex :: "nat option"
  sentencePosition :: "nat option"
  isLastInParagraph :: bool
  isLastWord :: "bool option"
  collocation :: "Collocation option"

text \<open>\<open>array.join(' ')\<close>\<close>

fun joinSpace :: "jsstring list \<Rightarrow> jsstring" where
  "joinSpace [] = []"
| "joinSpace [w] = w"
| "joinSpace (w # ws) = w @ [32] @ joinSpace ws"

text \<open>
  The inner loop of \<open>detectCollocation\<close>: every word of the phrase equals the word of
  the text at that place, lower-cased and stripped of everything outside \<open>\w\<close>.
\<close>

definition collocationMatches :: "jsstring list \<Rightarrow> nat \<Rightarrow> jsstring list \<Rightarrow> bool" where
  "collocationMatches ws i c =
     (\<forall>k \<in> set [0..<length c]. stripNonWord (toLowerCase (ws ! (i + k))) = c ! k)"

text \<open>The outer loop over the catalogue: a phrase longer than what remains is skipped, the
  first phrase that matches is returned.\<close>

fun detectIn :: "jsstring list list \<Rightarrow> jsstring list \<Rightarrow> nat \<Rightarrow> Collocation option" where
  "detectIn [] ws i = None"
| "detectIn (c # cs) ws i =
     (if int (length c) > int (length ws) - int i then detectIn cs ws i
      else if collocationMatches ws i c
      then Some \<lparr>c_words = take (length c) (drop i ws), c_length = length c,
                 c_display = joinSpace (take (length c) (drop i ws))\<rparr>
      else detectIn cs ws i)"

definition detectCollocation :: "jsstring list \<Rightarrow> nat \<Rightarrow> Collocation option" where
  "detectCollocation ws i = detectIn collocations ws i"

subsection \<open>Preprocessing\<close>

text \<open>
  \<open>text.split(/\n\s*\n/)\<close>. The pattern matches at a line feed when the run of white
  space after it holds another line feed, and then extends to the last line feed of that
  run; \<open>paragraphBreakAt\<close> gives the length of the match at the start of a string.
  The split scans from left to right; \<open>skip\<close> counts the characters of a match still to
  be passed over.
\<close>

definition paragraphBreakAt :: "jsstring \<Rightarrow> nat option" where
  "paragraphBreakAt s =
     (case s of [] \<Rightarrow> None
      | c # rest \<Rightarrow>
          if c \<noteq> 10 then None
          else let ws = takeWhile isSpace rest in
               if 10 \<in> set ws
               then Some (1 + (length ws - length (takeWhile (\<lambda>d. d \<noteq> 10) (rev ws))))
               else None)"

fun splitParagraphs :: "nat \<Rightarrow> jsstring \<Rightarrow> jsstring \<Rightarrow> jsstring list" where
  "splitParagraphs skip cur [] = [cur]"
| "splitParagraphs skip cur (c # cs) =
     (if skip > 0 then splitParagraphs (skip - 1) cur cs
      else case paragraphBreakAt (c # cs) of
             Some n \<Rightarrow> cur # splitParagraphs (n - 1) [] cs
           | None \<Rightarrow> splitParagraphs 0 (cur @ [c]) cs)"

text \<open>
  \<open>s.split(/\s+/).filter(w => w.length > 0)\<close>: the maximal runs of characters that are
  not white space.
\<close>

fun splitWhitespace :: "jsstring \<Rightarrow> jsstring \<Rightarrow> jsstring list" where
  "splitWhitespace cur [] = (if cur = [] then [] else [cur])"
| "splitWhitespace cur (c # cs) =
     (if isSpace c then (if cur = [] then splitWhitespace [] cs else cur # splitWhitespace [] cs)
      else splitWhitespace (cur @ [c]) cs)"

text \<open>The tokens of one paragraph, and the loop over the paragraphs with its running
  \<open>globalIndex\<close>.\<close>

definition paragraphTokens :: "nat \<Rightarrow> nat \<Rightarrow> nat \<Rightarrow> jsstring list \<Rightarrow> Token list" where
  "paragraphTokens nparas paraIndex globalIndex ws =
     map (\<lambda>wordIndex.
            \<lparr>word = ws ! wordIndex,
             index = int (globalIndex + wordIndex),
             paragraphIndex = Some paraIndex,
             sentencePosition = Some wordIndex,
             isLastInParagraph = (wordIndex = length ws - 1),
             isLastWord = Some (paraIndex = nparas - 1 \<and> wordIndex = length ws - 1),
             collocation = detectCollocation ws wordIndex\<rparr>)
         [0..<length ws]"

fun preprocessParagraphs :: "nat \<Rightarrow> nat \<Rightarrow> nat \<Rightarrow> jsstring list \<Rightarrow> Token list" where
  "preprocessParagraphs nparas paraIndex globalIndex [] = []"
| "preprocessParagraphs nparas paraIndex globalIndex (para # rest) =
     (let ws = splitWhitespace [] para in
      paragraphTokens nparas paraIndex globalIndex ws
        @ preprocessParagraphs nparas (paraIndex + 1) (globalIndex + length ws) rest)"

definition preprocessText :: "jsstring \<Rightarrow> Token list" where
  "preprocessText text =
     (let paragraphs = splitParagraphs 0 [] text in
      preprocessParagraphs (length paragraphs) 0 0 paragraphs)"

subsection \<open>The analysis pipeline\<close>

text \<open>The object that \<open>analyzeToken\<close> builds and returns; factor tags are literals.\<close>

record Analysis =
  original :: jsstring
  display :: jsstring
  multiplier :: number
  factors :: "string list"
  isChunkStart :: bool
  chunkWords :: "jsstring list option"
  orpOffset :: int

text \<open>\<open>analysis.multiplier *= m; analysis.factors.push(tag)\<close>\<close>

definition applyFactor :: "real \<Rightarrow> string \<Rightarrow> Analysis \<Rightarrow> Analysis" where
  "applyFactor m tag a =
     a\<lparr>multiplier := numMul (multiplier a) (Num m), factors := factors a @ [tag]\<rparr>"

text \<open>1. Punctuation.\<close>

definition punctuationStep :: "Token \<Rightarrow> Analysis \<Rightarrow> Analysis" where
  "punctuationStep tok a =
     (if sentenceEnd_test (word tok)
      then (if isLastInParagraph tok then applyFactor timing_paragraphEnd ''paragraph-end'' a
            else applyFactor timing_sentenceEnd ''sentence-end'' a)
      else if clauseBoundaries_test (word tok)
      then applyFactor timing_clauseBoundary ''clause-boundary'' a
      else a)"

text \<open>2. Length of the clean word.\<close>

definition lengthStep :: "jsstring \<Rightarrow> Analysis \<Rightarrow> Analysis" where
  "lengthStep cleanWord a =
     (let len = length cleanWord in
      if len \<le> 3 then applyFactor timing_shortWord ''short'' a
      else if len \<le> 7 then a
      else if len \<le> 11 then (applyFactor timing_longWord ''long'' a)\<lparr>orpOffset := 1\<rparr>
      else (applyFactor timing_veryLongWord ''very-long'' a)\<lparr>orpOffset := 2\<rparr>)"

text \<open>3. Frequency.\<close>

definition frequencyStep :: "jsstring \<Rightarrow> Analysis \<Rightarrow> Analysis" where
  "frequencyStep cleanWord a =
     (if cleanWord \<in> set highFrequency then applyFactor timing_highFrequency ''high-freq'' a
      else a)"

text \<open>4. Semantic role: two independent tests.\<close>

definition semanticStep :: "jsstring \<Rightarrow> Analysis \<Rightarrow> Analysis" where
  "semanticStep cleanWord a =
     (let a1 = (if cleanWord \<in> set transitions
                then applyFactor timing_transition ''transition'' a else a)
      in if cleanWord \<in> set subordinators
         then applyFactor timing_subordinator ''subordinator'' a1 else a1)"

text \<open>5. Token type: five independent tests; the acronym test reads the clean word.\<close>

definition tokenTypeStep :: "jsstring \<Rightarrow> jsstring \<Rightarrow> Analysis \<Rightarrow> Analysis" where
  "tokenTypeStep w cleanWord a =
     (let a1 = (if hasDigit_test w then applyFactor timing_number ''numeric'' a else a);
          a2 = (if mixedCase_test w then applyFactor timing_mixedCase ''mixed-case'' a1 else a1);
          a3 = (if allCaps_test cleanWord then applyFactor timing_allCaps ''acronym'' a2 else a2);
          a4 = (if hasSymbols_test w then applyFactor timing_hasSymbols ''symbols'' a3 else a3)
      in if 45 \<in> set w \<and> length w > 3
         then applyFactor timing_hyphenated ''hyphenated'' a4 else a4)"

text \<open>
  6. Concept tracking, for a clean word of more than four characters. The step reads and
  writes the concept memory and the window of recent words: the word is pushed, and the
  oldest one is shifted out when the window has grown beyond its size.
\<close>

definition conceptStep ::
  "jsstring \<Rightarrow> Analysis \<times> CognitiveEngine \<Rightarrow> Analysis \<times> CognitiveEngine" where
  "conceptStep cleanWord ae =
     (let a = fst ae; e = snd ae in
      if length cleanWord > 4 then
        let isRecent = (cleanWord \<in> set (recentWords e));
            seenBefore = (conceptMemory e cleanWord \<noteq> None);
            (a1, e1) =
              (if \<not> seenBefore \<and> cleanWord \<notin> set highFrequency
               then (applyFactor timing_firstOccurrence ''first-occurrence'' a,
                     e\<lparr>conceptMemory := (conceptMemory e)(cleanWord \<mapsto> 1)\<rparr>)
               else if isRecent
               then (applyFactor timing_recentRepeat ''recent-repeat'' a,
                     e\<lparr>conceptMemory := (conceptMemory e)(cleanWord \<mapsto>
                          (case conceptMemory e cleanWord of None \<Rightarrow> 0 | Some n \<Rightarrow> n) + 1)\<rparr>)
               else (a, e));
            pushed = recentWords e1 @ [cleanWord]
        in (a1, e1\<lparr>recentWords :=
                     (if length pushed > recentWindowSize then tl pushed else pushed)\<rparr>)
      else (a, e))"

text \<open>7. Reading mode: the base multiplier, then the boost for the complexity tags.\<close>

definition modeStep :: "CognitiveEngine \<Rightarrow> Analysis \<Rightarrow> Analysis" where
  "modeStep e a =
     (let mode = modes (currentMode e);
          a1 = a\<lparr>multiplier := numMul (multiplier a) (modeField baseMultiplier mode)\<rparr>;
          complexityFactors = length (filter
            (\<lambda>f. f \<in> set [''long'', ''very-long'', ''first-occurrence'', ''numeric'', ''mixed-case''])
            (factors a1))
      in if complexityFactors > 0
         then let complexityBoost =
                    numMul (numMul (numSub (modeField complexityWeight mode) (Num 1)) (Num 0.1))
                      (Num (real complexityFactors))
              in a1\<lparr>multiplier := numMul (multiplier a1) (numAdd (Num 1) complexityBoost)\<rparr>
         else a1)"

text \<open>8. Fatigue.\<close>

definition fatigueStep :: "CognitiveEngine \<Rightarrow> Analysis \<Rightarrow> Analysis" where
  "fatigueStep e a =
     (if fatigueLevel (fatigue e) > 0 then
        let fatigueMultiplier = 1 + fatigueLevel (fatigue e) * 0.3;
            a1 = a\<lparr>multiplier := numMul (multiplier a) (Num fatigueMultiplier)\<rparr>
        in if fatigueLevel (fatigue e) > 0.3
           then a1\<lparr>factors := factors a1 @ [''fatigue-adjusted'']\<rparr> else a1
      else a)"

text \<open>9. \<open>Math.max(0.5, Math.min(3.5, analysis.multiplier))\<close>\<close>

definition clampStep :: "Analysis \<Rightarrow> Analysis" where
  "clampStep a = a\<lparr>multiplier := mathMax (Num 0.5) (mathMin (Num 3.5) (multiplier a))\<rparr>"

text \<open>\<open>analyzeToken(token)\<close> returns the analysis and leaves the engine changed.\<close>

definition analyzeToken :: "Token \<Rightarrow> CognitiveEngine \<Rightarrow> Analysis \<times> CognitiveEngine" where
  "analyzeToken tok e =
     (let w = word tok;
          cleanWord = cleanWordOf w;
          a0 = \<lparr>original = w, display = w, multiplier = Num 1.0, factors = [],
                isChunkStart = False, chunkWords = None, orpOffset = 0\<rparr>;
          a5 = tokenTypeStep w cleanWord
                 (semanticStep cleanWord
                   (frequencyStep cleanWord
                     (lengthStep cleanWord
                       (punctuationStep tok a0))));
          ae = conceptStep cleanWord (a5, e);
          a6 = fst ae;
          e6 = snd ae
      in (clampStep (fatigueStep e6 (modeStep e6 a6)), e6))"

subsection \<open>Fatigue monitoring\<close>

text \<open>
  The events of \<open>updateFatigue\<close>. A pause or resume event may carry a duration; the
  monitor reads \<open>event.duration || 0\<close>. The first argument of \<open>updateFatigue\<close> is the
  value of \<open>Date.now()\<close>. A number or \<open>null\<close> used as a condition is true when it is a
  number other than zero.
\<close>

datatype FatigueEvent = Start | Word | Rewind | Pause "int option" | Resume "int option"

definition truthy :: "int option \<Rightarrow> bool" where
  "truthy t = (case t of None \<Rightarrow> False | Some n \<Rightarrow> n \<noteq> 0)"

fun updateFatigue :: "int \<Rightarrow> FatigueEvent \<Rightarrow> CognitiveEngine \<Rightarrow> CognitiveEngine" where
  "updateFatigue now Start e =
     e\<lparr>fatigue := (fatigue e)\<lparr>f_startTime := Some now, wordsRead := 0, fatigueLevel := 0\<rparr>\<rparr>"
| "updateFatigue now Word e =
     (let f = (fatigue e)\<lparr>wordsRead := wordsRead (fatigue e) + 1\<rparr> in
      case f_startTime f of
        None \<Rightarrow> e\<lparr>fatigue := f\<rparr>
      | Some st \<Rightarrow>
          if st = 0 then e\<lparr>fatigue := f\<rparr>
          else let minutes = real_of_int (now - st) / 60000 in
               if minutes > 5
               then e\<lparr>fatigue := f\<lparr>fatigueLevel := min 1 ((minutes - 5) / 20)\<rparr>\<rparr>
               else e\<lparr>fatigue := f\<rparr>)"
| "updateFatigue now Rewind e =
     e\<lparr>fatigue := (fatigue e)\<lparr>rewinds := rewinds (fatigue e) + 1,
                                fatigueLevel := min 1 (fatigueLevel (fatigue e) + 0.05)\<rparr>,
       comprehension := (comprehension e)\<lparr>rewindCount := rewindCount (comprehension e) + 1\<rparr>\<rparr>"
| "updateFatigue now (Pause duration) e =
     (let f = (fatigue e)\<lparr>pauses := pauses (fatigue e) + 1\<rparr>;
          c = (comprehension e)\<lparr>pauseCount := pauseCount (comprehension e) + 1\<rparr>;
          pauseDuration = (case duration of None \<Rightarrow> 0 | Some d \<Rightarrow> d)
      in if pauseDuration > 3000
         then e\<lparr>fatigue := f\<lparr>fatigueLevel := min 1 (fatigueLevel f + 0.03)\<rparr>, comprehension := c\<rparr>
         else e\<lparr>fatigue := f, comprehension := c\<rparr>)"
| "updateFatigue now (Resume duration) e =
     e\<lparr>fatigue := (fatigue e)\<lparr>fatigueLevel := max 0 (fatigueLevel (fatigue e) - 0.02)\<rparr>\<rparr>"

text \<open>\<open>getFatigueStatus()\<close> and \<open>assessComprehension()\<close>\<close>

record FatigueStatus =
  level :: real
  status :: string
  recommendation :: "string option"

definition getFatigueStatus :: "CognitiveEngine \<Rightarrow> FatigueStatus" where
  "getFatigueStatus e =
     (let l = fatigueLevel (fatigue e) in
      if l < 0.2 then \<lparr>level = l, status = ''fresh'', recommendation = None\<rparr>
      else if l < 0.5 then \<lparr>level = l, status = ''mild'',
             recommendation = Some ''Consider taking a short break soon''\<rparr>
      else if l < 0.8 then \<lparr>level = l, status = ''moderate'',
             recommendation = Some ''Speed has been reduced. Break recommended.''\<rparr>
      else \<lparr>level = l, status = ''high'',
             recommendation = Some ''Strong fatigue detected. Please rest.''\<rparr>)"

record Assessment =
  score :: real
  issues :: "string list"
  suggestSlowdown :: bool
  suggestBreak :: bool

definition assessComprehension :: "CognitiveEngine \<Rightarrow> Assessment" where
  "assessComprehension e =
     (let rewindRate = real (rewindCount (comprehension e)) / real (max 1 (wordsRead (fatigue e)));
          pauseRate = real (pauseCount (comprehension e)) / real (max 1 (wordsRead (fatigue e)));
          (s1, i1) = (if rewindRate > 0.05 then (1.0 - 0.2, [''frequent-rewinds'']) else (1.0, []));
          (s2, i2) = (if pauseRate > 0.03 then (s1 - 0.1, i1 @ [''frequent-pauses'']) else (s1, i1));
          (s3, i3) = (if fatigueLevel (fatigue e) > 0.5 then (s2 - 0.2, i2 @ [''fatigue''])
                      else (s2, i2))
      in \<lparr>score = max 0 s3, issues = i3, suggestSlowdown = (s3 < 0.7),
          suggestBreak = (s3 < 0.5 \<or> fatigueLevel (fatigue e) > 0.7)\<rparr>)"

section \<open>The playback engine\<close>

subsection \<open>Configuration\<close>

text \<open>
  \<open>this.config\<close> without its five callbacks: a call of a callback is recorded as a
  notification (below). \<open>Options\<close> is the argument of the constructor and of
  \<open>updateConfig\<close>, an object in which any field may be absent.
\<close>

record Config =
  wpm :: number
  pauseAtPunctuation :: bool
  extraTimeForLongWords :: bool
  adaptiveMode :: bool
  longWordThreshold :: number
  punctuationMultiplier :: number
  longWordMultiplier :: number

record Options =
  o_wpm :: "number option"
  o_pauseAtPunctuation :: "bool option"
  o_extraTimeForLongWords :: "bool option"
  o_adaptiveMode :: "bool option"
  o_longWordThreshold :: "number option"
  o_punctuationMultiplier :: "number option"
  o_longWordMultiplier :: "number option"

definition noOptions :: Options where
  "noOptions = \<lparr>o_wpm = None, o_pauseAtPunctuation = None, o_extraTimeForLongWords = None,
     o_adaptiveMode = None, o_longWordThreshold = None, o_punctuationMultiplier = None,
     o_longWordMultiplier = None\<rparr>"

text \<open>\<open>options.x || d\<close> for a number and \<open>options.x !== false\<close> for a flag.\<close>

definition orDefault :: "number option \<Rightarrow> real \<Rightarrow> number" where
  "orDefault x d = (case x of None \<Rightarrow> Num d | Some v \<Rightarrow> if isTruthy v then v else Num d)"

definition notFalse :: "bool option \<Rightarrow> bool" where
  "notFalse x = (case x of None \<Rightarrow> True | Some b \<Rightarrow> b)"

subsection \<open>What the engine returns and announces\<close>

text \<open>
  The object of \<open>getCurrentWord()\<close>; the three fields of the recognition point, spread
  into the object by the source, are the field \<open>orp\<close>.
\<close>

record WordInfo =
  cw_word :: jsstring
  displayText :: jsstring
  isCollocation :: bool
  cw_index :: int
  total :: nat
  progress :: real
  orp :: ORP
  prevWord :: "jsstring option"
  nextWord :: "jsstring option"
  analysis :: "Analysis option"

record Stats =
  wordCount :: nat
  duration :: real
  actualWPM :: int
  stats_fatigue :: FatigueStatus
  stats_comprehension :: Assessment

datatype StateChange = Loaded nat | Playing | Paused | Ready | Completed Stats

datatype Notification =
    OnWordChange "WordInfo option"
  | OnProgress int nat real
  | OnComplete Stats
  | OnStateChange StateChange
  | OnAnalysis Analysis

datatype Error = TypeError

subsection \<open>State\<close>

text \<open>
  The fields of a \<open>SpeedReader\<close>, followed by the part of the host that the engine acts
  on: \<open>clock\<close> is what \<open>Date.now()\<close> returns, \<open>timers\<close> are the pending calls of
  \<open>setTimeout\<close> (identifier and due time; every callback of the engine is
  \<open>() => this.showNextWord()\<close>), \<open>nextTimer\<close> is the identifier that the next
  \<open>setTimeout\<close> returns, and \<open>notifications\<close> lists the calls of the callbacks in
  order. The class \<open>CognitiveEngine\<close> is defined, so the constructor creates one and the
  tests \<open>if (this.cognitive)\<close> succeed. An operation runs at one instant of the clock.
\<close>

record SpeedReader =
  config :: Config
  words :: "jsstring list"
  tokens :: "Token list"
  currentIndex :: int
  isPlaying :: bool
  isPaused :: bool
  timeoutId :: "nat option"
  startTime :: "int option"
  pausedTime :: "int option"
  pauseStartTime :: "int option"
  totalPausedDuration :: int
  cognitive :: CognitiveEngine
  skipCount :: nat
  clock :: int
  timers :: "(nat \<times> int) list"
  nextTimer :: nat
  notifications :: "Notification list"

text \<open>\<open>new SpeedReader(options)\<close>, created at time \<open>now\<close>; timer identifiers start at 1.\<close>

definition newSpeedReader :: "Options \<Rightarrow> int \<Rightarrow> SpeedReader" where
  "newSpeedReader opts now =
     \<lparr>config = \<lparr>wpm = orDefault (o_wpm opts) 300,
                 pauseAtPunctuation = notFalse (o_pauseAtPunctuation opts),
                 extraTimeForLongWords = notFalse (o_extraTimeForLongWords opts),
                 adaptiveMode = notFalse (o_adaptiveMode opts),
                 longWordThreshold = orDefault (o_longWordThreshold opts) 8,
                 punctuationMultiplier = orDefault (o_punctuationMultiplier opts) 1.5,
                 longWordMultiplier = orDefault (o_longWordMultiplier opts) 1.3\<rparr>,
      words = [], tokens = [], currentIndex = 0, isPlaying = False, isPaused = False,
      timeoutId = None, startTime = None, pausedTime = None, pauseStartTime = None,
      totalPausedDuration = 0, cognitive = newCognitiveEngine, skipCount = 0,
      clock = now, timers = [], nextTimer = 1, notifications = []\<rparr>"

definition notify :: "Notification \<Rightarrow> SpeedReader \<Rightarrow> SpeedReader" where
  "notify n s = s\<lparr>notifications := notifications s @ [n]\<rparr>"

text \<open>\<open>this.cognitive.updateFatigue(event)\<close> at the current time.\<close>

definition fatigueEvent :: "FatigueEvent \<Rightarrow> SpeedReader \<Rightarrow> SpeedReader" where
  "fatigueEvent ev s = s\<lparr>cognitive := updateFatigue (clock s) ev (cognitive s)\<rparr>"

text \<open>
  \<open>this.timeoutId = setTimeout(() => this.showNextWord(), delay)\<close>: a new timer is
  registered and its identifier stored; the timer stored before is not touched.
\<close>

definition scheduleStep :: "int \<Rightarrow> SpeedReader \<Rightarrow> SpeedReader" where
  "scheduleStep delay s =
     s\<lparr>timeoutId := Some (nextTimer s),
       timers := timers s @ [(nextTimer s, clock s + delay)],
       nextTimer := nextTimer s + 1\<rparr>"

text \<open>\<open>if (this.timeoutId) { clearTimeout(this.timeoutId); this.timeoutId = null; }\<close>\<close>

definition clearPending :: "SpeedReader \<Rightarrow> SpeedReader" where
  "clearPending s =
     (case timeoutId s of
        None \<Rightarrow> s
      | Some t \<Rightarrow> if t = 0 then s
                  else s\<lparr>timers := filter (\<lambda>p. fst p \<noteq> t) (timers s), timeoutId := None\<rparr>)"

subsection \<open>Parsing and timing\<close>

text \<open>\<open>.replace(/\r\n/g, '\n')\<close> and \<open>.replace(/\r/g, '\n')\<close>\<close>

fun replaceCRLF :: "jsstring \<Rightarrow> jsstring" where
  "replaceCRLF [] = []"
| "replaceCRLF [c] = [c]"
| "replaceCRLF (c # d # cs) =
     (if c = 13 \<and> d = 10 then 10 # replaceCRLF cs else c # replaceCRLF (d # cs))"

definition replaceCR :: "jsstring \<Rightarrow> jsstring" where
  "replaceCR txt = map (\<lambda>c. if c = 13 then 10 else c) txt"

text \<open>\<open>parseText(text)\<close>; the empty string is false as a condition.\<close>

definition parseText :: "jsstring \<Rightarrow> jsstring list" where
  "parseText txt = (if txt = [] then [] else splitWhitespace [] (replaceCR (replaceCRLF txt)))"

text \<open>
  \<open>getWordDuration(word, analysis)\<close>. The division is the one of the reals, where a
  words-per-minute value of zero gives a base interval of zero. A multiplier that is
  \<open>NaN\<close> or zero is false in \<open>analysis && analysis.multiplier\<close>, and the basic timing is used.
\<close>

definition getWordDuration :: "SpeedReader \<Rightarrow> jsstring \<Rightarrow> Analysis option \<Rightarrow> number" where
  "getWordDuration s w an =
     (let baseInterval = numDiv (Num 60000) (wpm (config s)) in
      if adaptiveMode (config s) \<and> an \<noteq> None \<and> isTruthy (multiplier (the an))
      then roundNumber (numMul baseInterval (multiplier (the an)))
      else
        let m1 = (if pauseAtPunctuation (config s)
                  then (if endPunctuation_test w
                        then numMul (Num 1) (numMul (punctuationMultiplier (config s)) (Num 1.2))
                        else if midPunctuation_test w
                        then numMul (Num 1) (punctuationMultiplier (config s))
                        else Num 1)
                  else Num 1);
            m2 = (if extraTimeForLongWords (config s) \<and>
                     numLess (longWordThreshold (config s)) (Num (real (length (stripNonWord w))))
                  then numMul m1 (longWordMultiplier (config s)) else m1)
        in roundNumber (numMul baseInterval m2))"

text \<open>The delay that \<open>setTimeout\<close> takes from a number: \<open>NaN\<close> counts as zero.\<close>

fun timeoutDelay :: "number \<Rightarrow> int" where
  "timeoutDelay (Num a) = \<lfloor>a\<rfloor>"
| "timeoutDelay NaN = 0"

text \<open>\<open>calculateORP(word, analysis)\<close>\<close>

definition calculateORP :: "jsstring \<Rightarrow> Analysis option \<Rightarrow> ORP" where
  "calculateORP w an =
     (case an of Some a \<Rightarrow> calculateAdaptiveORP w (orpOffset a) | None \<Rightarrow> basicORP w)"

subsection \<open>Operations\<close>

text \<open>
  An operation takes the state and returns its result with the new state. An operation
  in which the source can throw returns \<open>Inl\<close> of the error with the state as it was
  when the error was thrown.
\<close>

definition load :: "jsstring \<Rightarrow> SpeedReader \<Rightarrow> nat \<times> SpeedReader" where
  "load txt s =
     (let s1 = s\<lparr>words := parseText txt, currentIndex := 0, isPlaying := False,
                 isPaused := False, totalPausedDuration := 0, skipCount := 0\<rparr>;
          s2 = clearPending s1;
          s3 = s2\<lparr>tokens := preprocessText txt\<rparr>;
          s4 = s3\<lparr>cognitive := reset (cognitive s3)\<rparr>;
          s5 = fatigueEvent Start s4;
          s6 = notify (OnStateChange (Loaded (length (words s5)))) s5
      in (length (words s6), s6))"

text \<open>
  The blocks of \<open>getCurrentWord()\<close>. The token is
  \<open>this.tokens[this.currentIndex] || { word, index: this.currentIndex }\<close>.
\<close>

definition currentToken :: "SpeedReader \<Rightarrow> Token" where
  "currentToken s =
     (let i = nat (currentIndex s) in
      if i < length (tokens s) then tokens s ! i
      else \<lparr>word = words s ! i, index = currentIndex s, paragraphIndex = None,
            sentencePosition = None, isLastInParagraph = False, isLastWord = None,
            collocation = None\<rparr>)"

text \<open>The cognitive analysis, run in adaptive mode only; \<open>onAnalysis\<close> is told of it.\<close>

definition analyseCurrent :: "SpeedReader \<Rightarrow> Analysis option \<times> SpeedReader" where
  "analyseCurrent s =
     (if adaptiveMode (config s)
      then let ae = analyzeToken (currentToken s) (cognitive s)
           in (Some (fst ae), notify (OnAnalysis (fst ae)) (s\<lparr>cognitive := snd ae\<rparr>))
      else (None, s))"

text \<open>
  The check for a collocation: the text to display, the flag, and the skip count, which
  is set when the token starts a phrase and no skip is under way.
\<close>

definition collocationUnit :: "SpeedReader \<Rightarrow> (jsstring \<times> bool) \<times> SpeedReader" where
  "collocationUnit s =
     (case collocation (currentToken s) of
        Some c \<Rightarrow> if skipCount s = 0
                  then ((c_display c, True), s\<lparr>skipCount := c_length c - 1\<rparr>)
                  else ((words s ! nat (currentIndex s), False), s)
      | None \<Rightarrow> ((words s ! nat (currentIndex s), False), s))"

text \<open>
  \<open>getCurrentWord()\<close>. With a cursor at or past the end it returns \<open>null\<close>. With a
  negative cursor \<open>this.words[this.currentIndex]\<close> is \<open>undefined\<close>, and the first
  thing done with it, \<open>word.replace\<close> in \<open>analyzeToken\<close> or in \<open>calculateORP\<close>,
  throws a TypeError before anything is changed.
\<close>

definition getCurrentWord :: "SpeedReader \<Rightarrow> Error + (WordInfo option \<times> SpeedReader)" where
  "getCurrentWord s =
     (if currentIndex s \<ge> int (length (words s)) then Inr (None, s)
      else if currentIndex s < 0 then Inl TypeError
      else
        let i = nat (currentIndex s);
            w = words s ! i;
            an = fst (analyseCurrent s);
            s1 = snd (analyseCurrent s);
            recognition = calculateORP w an;
            shown = fst (collocationUnit s1);
            s2 = snd (collocationUnit s1)
        in Inr (Some \<lparr>cw_word = w, displayText = fst shown, isCollocation = snd shown,
                      cw_index = currentIndex s2, total = length (words s2),
                      progress = (if length (words s2) > 0
                                  then real_of_int (currentIndex s2) / real (length (words s2)) * 100
                                  else 0),
                      orp = recognition,
                      prevWord = (if currentIndex s2 > 0 then Some (words s2 ! (i - 1)) else None),
                      nextWord = (if currentIndex s2 < int (length (words s2)) - 1
                                  then Some (words s2 ! (i + 1)) else None),
                      analysis = an\<rparr>, s2))"

text \<open>\<open>complete()\<close>, named \<open>complete_reading\<close> here.\<close>

definition complete_reading :: "SpeedReader \<Rightarrow> SpeedReader" where
  "complete_reading s =
     (let s1 = s\<lparr>isPlaying := False, isPaused := False\<rparr>;
          elapsed = (case startTime s1 of
                       None \<Rightarrow> 0
                     | Some st \<Rightarrow> if st = 0 then 0
                                  else real_of_int (clock s1 - st - totalPausedDuration s1) / 1000);
          stats = \<lparr>wordCount = length (words s1), duration = elapsed,
                   actualWPM = (if elapsed > 0
                                then mathRound (real (length (words s1)) / elapsed * 60) else 0),
                   stats_fatigue = getFatigueStatus (cognitive s1),
                   stats_comprehension = assessComprehension (cognitive s1)\<rparr>
      in notify (OnComplete stats) (notify (OnStateChange (Completed stats)) s1))"

text \<open>The notification of progress sent with a word: \<open>current\<close> is the cursor plus one.\<close>

definition progressOf :: "SpeedReader \<Rightarrow> Notification" where
  "progressOf s =
     OnProgress (currentIndex s + 1) (length (words s))
       (real_of_int (currentIndex s + 1) / real (length (words s)) * 100)"

text \<open>
  \<open>showNextWord()\<close>, the step of the playback. In the last branch \<open>currentWord.word\<close>
  is read; \<open>getCurrentWord\<close> has returned a word there, since the cursor was before the
  end.
\<close>

definition showNextWord :: "SpeedReader \<Rightarrow> (Error + unit) \<times> SpeedReader" where
  "showNextWord s =
     (if skipCount s > 0 then
        let s1 = s\<lparr>skipCount := skipCount s - 1, currentIndex := currentIndex s + 1\<rparr>
        in if isPlaying s1 \<and> currentIndex s1 < int (length (words s1))
           then (Inr (), scheduleStep 10 s1)
           else (Inr (), s1)
      else if currentIndex s \<ge> int (length (words s)) then (Inr (), complete_reading s)
      else
        case getCurrentWord s of
          Inl err \<Rightarrow> (Inl err, s)
        | Inr (cw, s1) \<Rightarrow>
            let s2 = fatigueEvent Word s1;
                s3 = notify (OnWordChange cw) s2;
                s4 = notify (progressOf s3) s3;
                s5 = s4\<lparr>currentIndex := currentIndex s4 + 1\<rparr>
            in if isPlaying s5 \<and> currentIndex s5 < int (length (words s5))
               then (case cw of
                       None \<Rightarrow> (Inl TypeError, s5)
                     | Some c \<Rightarrow>
                         (Inr (), scheduleStep (timeoutDelay (getWordDuration s5 (cw_word c) (analysis c))) s5))
               else if currentIndex s5 \<ge> int (length (words s5)) then (Inr (), complete_reading s5)
               else (Inr (), s5))"

text \<open>
  \<open>play()\<close>. \<open>enterPlaying\<close> is its part between the test for an empty document and
  the call of \<open>showNextWord\<close>: the cursor returns to the start when it is at the end,
  the flags are set, a pause under way ends with a resume event that carries its length,
  the paused time is added up or the start time set, and the state change is announced.
\<close>

definition enterPlaying :: "SpeedReader \<Rightarrow> SpeedReader" where
  "enterPlaying s =
     (let s1 = (if currentIndex s \<ge> int (length (words s)) then s\<lparr>currentIndex := 0\<rparr> else s);
          s2 = s1\<lparr>isPlaying := True, isPaused := False\<rparr>;
          s3 = (case pauseStartTime s2 of
                  None \<Rightarrow> s2
                | Some p \<Rightarrow>
                    if p = 0 then s2
                    else (fatigueEvent (Resume (Some (clock s2 - p))) s2)\<lparr>pauseStartTime := None\<rparr>);
          s4 = (if truthy (pausedTime s3)
                then s3\<lparr>totalPausedDuration :=
                          totalPausedDuration s3 + (clock s3 - the (pausedTime s3)),
                        pausedTime := None\<rparr>
                else if \<not> truthy (startTime s3) then s3\<lparr>startTime := Some (clock s3)\<rparr>
                else s3)
      in notify (OnStateChange Playing) s4)"

definition play :: "SpeedReader \<Rightarrow> (Error + bool) \<times> SpeedReader" where
  "play s =
     (if length (words s) = 0 then (Inr False, s)
      else case showNextWord (enterPlaying s) of
             (Inl err, s1) \<Rightarrow> (Inl err, s1)
           | (Inr u, s1) \<Rightarrow> (Inr True, s1))"

text \<open>\<open>pause()\<close>: the fatigue event is \<open>{ type: 'pause' }\<close>, without a duration.\<close>

definition pause :: "SpeedReader \<Rightarrow> bool \<times> SpeedReader" where
  "pause s =
     (if \<not> isPlaying s then (False, s)
      else
        let s1 = s\<lparr>isPlaying := False, isPaused := True, pausedTime := Some (clock s),
                   pauseStartTime := Some (clock s)\<rparr>;
            s2 = clearPending s1;
            s3 = fatigueEvent (Pause None) s2;
            s4 = notify (OnStateChange Paused) s3
        in (True, s4))"

definition toggle :: "SpeedReader \<Rightarrow> (Error + bool) \<times> SpeedReader" where
  "toggle s = (if isPlaying s then (case pause s of (b, s1) \<Rightarrow> (Inr b, s1)) else play s)"

text \<open>
  The block that \<open>restart\<close>, \<open>goToWord\<close>, \<open>next\<close> and \<open>prev\<close> share: the current
  word is computed and, when there is one, announced with its progress.
\<close>

definition announce ::
  "(SpeedReader \<Rightarrow> Notification) \<Rightarrow> SpeedReader \<Rightarrow> (Error + unit) \<times> SpeedReader" where
  "announce prog s =
     (case getCurrentWord s of
        Inl err \<Rightarrow> (Inl err, s)
      | Inr (cw, s1) \<Rightarrow>
          (case cw of
             None \<Rightarrow> (Inr (), s1)
           | Some c \<Rightarrow> let s2 = notify (OnWordChange cw) s1 in (Inr (), notify (prog s2) s2)))"

text \<open>\<open>if (wasPlaying) this.play();\<close> at the end of a navigation.\<close>

definition resumeIf :: "bool \<Rightarrow> SpeedReader \<Rightarrow> (Error + unit) \<times> SpeedReader" where
  "resumeIf wasPlaying s =
     (if wasPlaying
      then (case play s of (Inl err, s1) \<Rightarrow> (Inl err, s1) | (Inr b, s1) \<Rightarrow> (Inr (), s1))
      else (Inr (), s))"

text \<open>\<open>restart()\<close>\<close>

definition restart :: "SpeedReader \<Rightarrow> (Error + unit) \<times> SpeedReader" where
  "restart s =
     (let s1 = snd (pause s);
          s2 = s1\<lparr>currentIndex := 0, startTime := None, pausedTime := None,
                  totalPausedDuration := 0, skipCount := 0\<rparr>;
          s3 = s2\<lparr>cognitive := reset (cognitive s2)\<rparr>;
          s4 = fatigueEvent Start s3
      in case announce (\<lambda>t. OnProgress 1 (length (words t)) 0) s4 of
           (Inl err, s5) \<Rightarrow> (Inl err, s5)
         | (Inr u, s5) \<Rightarrow> (Inr (), notify (OnStateChange Ready) s5))"

text \<open>\<open>goToWord(index)\<close>\<close>

definition goToWord :: "int \<Rightarrow> SpeedReader \<Rightarrow> (Error + unit) \<times> SpeedReader" where
  "goToWord i s =
     (let i1 = (if i < 0 then 0 else i);
          i2 = (if i1 \<ge> int (length (words s)) then int (length (words s)) - 1 else i1);
          wasPlaying = isPlaying s;
          s1 = (if wasPlaying then snd (pause s) else s);
          s2 = s1\<lparr>currentIndex := i2, skipCount := 0\<rparr>
      in case announce progressOf s2 of
           (Inl err, s3) \<Rightarrow> (Inl err, s3)
         | (Inr u, s3) \<Rightarrow> resumeIf wasPlaying s3)"

text \<open>\<open>next()\<close>\<close>

definition next_word :: "SpeedReader \<Rightarrow> (Error + unit) \<times> SpeedReader" where
  "next_word s =
     (if currentIndex s < int (length (words s)) - 1 then
        let wasPlaying = isPlaying s;
            s1 = (if wasPlaying then snd (pause s) else s);
            s2 = s1\<lparr>currentIndex := currentIndex s1 + 1, skipCount := 0\<rparr>
        in case announce progressOf s2 of
             (Inl err, s3) \<Rightarrow> (Inl err, s3)
           | (Inr u, s3) \<Rightarrow> resumeIf wasPlaying s3
      else (Inr (), s))"

text \<open>\<open>prev()\<close>: everything, the rewind event too, is inside the test of the cursor.\<close>

definition prev :: "SpeedReader \<Rightarrow> (Error + unit) \<times> SpeedReader" where
  "prev s =
     (if currentIndex s > 0 then
        let wasPlaying = isPlaying s;
            s1 = (if wasPlaying then snd (pause s) else s);
            s2 = s1\<lparr>currentIndex := currentIndex s1 - 1, skipCount := 0\<rparr>;
            s3 = fatigueEvent Rewind s2
        in case announce progressOf s3 of
             (Inl err, s4) \<Rightarrow> (Inl err, s4)
           | (Inr u, s4) \<Rightarrow> resumeIf wasPlaying s4
      else (Inr (), s))"

text \<open>\<open>jump(count)\<close>: the rewind event comes before \<open>goToWord\<close>.\<close>

definition jump :: "int \<Rightarrow> SpeedReader \<Rightarrow> (Error + unit) \<times> SpeedReader" where
  "jump count s =
     (let newIndex = max 0 (min (int (length (words s)) - 1) (currentIndex s + count));
          s1 = (if count < 0 then fatigueEvent Rewind s else s)
      in goToWord newIndex s1)"

text \<open>\<open>setWPM(wpm)\<close>, \<open>setAdaptiveMode(enabled)\<close> and \<open>updateConfig(newConfig)\<close>, which
  is \<open>Object.assign(this.config, newConfig)\<close>: every field present is copied.\<close>

definition setWPM :: "number \<Rightarrow> SpeedReader \<Rightarrow> number \<times> SpeedReader" where
  "setWPM n s =
     (let s1 = s\<lparr>config := (config s)\<lparr>wpm := mathMax (Num 50) (mathMin (Num 1500) n)\<rparr>\<rparr>
      in (wpm (config s1), s1))"

text \<open>\<open>SpeedReader.setMode(mode)\<close> hands the name to the cognitive engine.\<close>

definition readerSetMode :: "jsstring \<Rightarrow> SpeedReader \<Rightarrow> ModeEntry option \<times> SpeedReader" where
  "readerSetMode name s =
     (let r = setMode name (cognitive s) in (fst r, s\<lparr>cognitive := snd r\<rparr>))"

definition setAdaptiveMode :: "bool \<Rightarrow> SpeedReader \<Rightarrow> SpeedReader" where
  "setAdaptiveMode enabled s = s\<lparr>config := (config s)\<lparr>adaptiveMode := enabled\<rparr>\<rparr>"

definition assign :: "'a option \<Rightarrow> 'a \<Rightarrow> 'a" where
  "assign new old = (case new of None \<Rightarrow> old | Some v \<Rightarrow> v)"

definition updateConfig :: "Options \<Rightarrow> SpeedReader \<Rightarrow> SpeedReader" where
  "updateConfig newConfig s =
     s\<lparr>config :=
         \<lparr>wpm = assign (o_wpm newConfig) (wpm (config s)),
          pauseAtPunctuation = assign (o_pauseAtPunctuation newConfig) (pauseAtPunctuation (config s)),
          extraTimeForLongWords =
            assign (o_extraTimeForLongWords newConfig) (extraTimeForLongWords (config s)),
          adaptiveMode = assign (o_adaptiveMode newConfig) (adaptiveMode (config s)),
          longWordThreshold = assign (o_longWordThreshold newConfig) (longWordThreshold (config s)),
          punctuationMultiplier =
            assign (o_punctuationMultiplier newConfig) (punctuationMultiplier (config s)),
          longWordMultiplier =
            assign (o_longWordMultiplier newConfig) (longWordMultiplier (config s))\<rparr>\<rparr>"

text \<open>\<open>destroy()\<close>\<close>

definition destroy :: "SpeedReader \<Rightarrow> SpeedReader" where
  "destroy s =
     (let s1 = clearPending s;
          s2 = s1\<lparr>words := [], tokens := [], isPlaying := False, isPaused := False\<rparr>
      in s2\<lparr>cognitive := reset (cognitive s2)\<rparr>)"

text \<open>
  The host runs a pending timer: the timer leaves the pending ones, the clock is at its
  due time or later, and its callback calls \<open>showNextWord\<close>. A timer that is not
  pending, because it ran or was cleared, does nothing.
\<close>

definition fireTimer :: "nat \<Rightarrow> SpeedReader \<Rightarrow> (Error + unit) \<times> SpeedReader" where
  "fireTimer t s =
     (case map_of (timers s) t of
        None \<Rightarrow> (Inr (), s)
      | Some due \<Rightarrow>
          showNextWord (s\<lparr>timers := filter (\<lambda>p. fst p \<noteq> t) (timers s),
                          clock := max (clock s) due\<rparr>))"

subsection \<open>Observations\<close>

text \<open>
  The calls of \<open>onWordChange\<close> among the notifications, the identifiers of the pending
  timers, and the two counters of rewinds and of pauses with the fatigue level.
\<close>

fun wordChangeOf :: "Notification \<Rightarrow> WordInfo option list" where
  "wordChangeOf (OnWordChange cw) = [cw]"
| "wordChangeOf n = []"

definition wordChanges :: "SpeedReader \<Rightarrow> WordInfo option list" where
  "wordChanges s = concat (map wordChangeOf (notifications s))"

definition pendingSteps :: "SpeedReader \<Rightarrow> nat list" where
  "pendingSteps s = map fst (timers s)"

definition rewindCounters :: "SpeedReader \<Rightarrow> nat \<times> nat" where
  "rewindCounters s = (rewinds (fatigue (cognitive s)), rewindCount (comprehension (cognitive s)))"

definition pauseCounters :: "SpeedReader \<Rightarrow> nat \<times> nat" where
  "pauseCounters s = (pauses (fatigue (cognitive s)), pauseCount (comprehension (cognitive s)))"

definition fatigueLevelOf :: "SpeedReader \<Rightarrow> real" where
  "fatigueLevelOf s = fatigueLevel (fatigue (cognitive s))"

text \<open>The state in which \<open>getCurrentWord\<close> leaves the engine when there is a current
  word: after the analysis and the check for a collocation.\<close>

definition afterWord :: "SpeedReader \<Rightarrow> SpeedReader" where
  "afterWord s = snd (collocationUnit (snd (analyseCurrent s)))"

text \<open>The analyzer run over a list of tokens, one after the other.\<close>

fun analyzeAll :: "Token list \<Rightarrow> CognitiveEngine \<Rightarrow> CognitiveEngine" where
  "analyzeAll [] e = e"
| "analyzeAll (t # ts) e = analyzeAll ts (snd (analyzeToken t e))"

subsection \<open>Commands\<close>

text \<open>
  The public operations of the engine and the run of a timer by the host, as commands
  that are run one after the other; results are dropped. \<open>noDoublePlay\<close> holds of a
  list of commands in which \<open>play()\<close> is only called on an engine that is not playing.
  \<open>oneStep\<close> is the discipline of the scheduler: at most one step is pending, only
  while the engine is playing, and its timer is the one stored in \<open>timeoutId\<close>.
\<close>

datatype Command =
    Load jsstring | Play | PauseCmd | Toggle | Restart | GoToWord int | Next | Prev | Jump int
  | SetWPM number | SetMode jsstring | SetAdaptiveMode bool | UpdateConfig Options
  | CurrentWord | Destroy | TimerRuns nat

fun run :: "Command \<Rightarrow> SpeedReader \<Rightarrow> SpeedReader" where
  "run (Load txt) s = snd (load txt s)"
| "run Play s = snd (play s)"
| "run PauseCmd s = snd (pause s)"
| "run Toggle s = snd (toggle s)"
| "run Restart s = snd (restart s)"
| "run (GoToWord i) s = snd (goToWord i s)"
| "run Next s = snd (next_word s)"
| "run Prev s = snd (prev s)"
| "run (Jump n) s = snd (jump n s)"
| "run (SetWPM n) s = snd (setWPM n s)"
| "run (SetMode name) s = snd (readerSetMode name s)"
| "run (SetAdaptiveMode b) s = setAdaptiveMode b s"
| "run (UpdateConfig opts) s = updateConfig opts s"
| "run CurrentWord s = (case getCurrentWord s of Inl err \<Rightarrow> s | Inr r \<Rightarrow> snd r)"
| "run Destroy s = destroy s"
| "run (TimerRuns t) s = snd (fireTimer t s)"

definition oneStep :: "SpeedReader \<Rightarrow> bool" where
  "oneStep s =
     (0 < nextTimer s \<and>
      (pendingSteps s = [] \<or>
       (isPlaying s \<and> timeoutId s \<noteq> Some 0 \<and> map Some (pendingSteps s) = [timeoutId s])))"

fun runAll :: "Command list \<Rightarrow> SpeedReader \<Rightarrow> SpeedReader" where
  "runAll [] s = s"
| "runAll (c # cs) s = runAll cs (run c s)"

fun noDoublePlay :: "Command list \<Rightarrow> SpeedReader \<Rightarrow> bool" where
  "noDoublePlay [] s = True"
| "noDoublePlay (c # cs) s = ((c = Play \<longrightarrow> \<not> isPlaying s) \<and> noDoublePlay cs (run c s))"

subsection \<open>Documents and runs used as examples\<close>

text \<open>
  A new engine with the default options, created at time 1000, after \<open>load\<close> of three
  texts.
\<close>

definition fourWords :: SpeedReader where
  "fourWords = snd (load (js ''a b c d'') (newSpeedReader noOptions 1000))"

definition inOrderTo :: SpeedReader where
  "inOrderTo = snd (load (js ''in order to succeed'') (newSpeedReader noOptions 1000))"


text \<open>
  \<open>play()\<close>, \<open>play()\<close> again while playing, \<open>pause()\<close>, and then the timer of the
  first \<open>play()\<close> running.
\<close>

definition playedOnce :: SpeedReader where
  "playedOnce = snd (play fourWords)"

definition playedTwice :: SpeedReader where
  "playedTwice = snd (play playedOnce)"

definition thenPaused :: SpeedReader where
  "thenPaused = snd (pause playedTwice)"

definition staleStep :: SpeedReader where
  "staleStep = snd (fireTimer 1 thenPaused)"

text \<open>Three calls of \<open>showNextWord()\<close> on the text that starts with a collocation.\<close>

definition afterFirstStep :: SpeedReader where
  "afterFirstStep = snd (showNextWord inOrderTo)"

definition afterSecondStep :: SpeedReader where
  "afterSecondStep = snd (showNextWord afterFirstStep)"

definition afterThirdStep :: SpeedReader where
  "afterThirdStep = snd (showNextWord afterSecondStep)"

text \<open>Twenty-six tokens with the distinct words \<open>tokena\<close> to \<open>tokenz\<close>.\<close>

definition sampleToken :: "nat \<Rightarrow> Token" where
  "sampleToken n = \<lparr>word = js ''token'' @ [97 + n], index = int n, paragraphIndex = Some 0,
     sentencePosition = Some n, isLastInParagraph = False, isLastWord = Some False,
     collocation = None\<rparr>"

definition sampleTokens :: "Token list" where
  "sampleTokens = map sampleToken [0..<26]"

section \<open>Properties\<close>

subsection \<open>Evaluation rules\<close>

lemmas char_defs = js_def isDigit_def isUpper_def isLower_def isWordChar_def isSpace_def
  isLineTerminator_def lowerUnit_def toLowerCase_def stripNonWord_def cleanWordOf_def


subsection \<open>The multiplier of an analysis\<close>

lemma lift2_NaN_right [simp]: "lift2 f x NaN = NaN"
  by (cases x) simp_all

lemma lift2_number: "x \<noteq> NaN \<Longrightarrow> y \<noteq> NaN \<Longrightarrow> lift2 f x y \<noteq> NaN"
  by (cases x; cases y) simp_all

lemma applyFactor_number: "multiplier a \<noteq> NaN \<Longrightarrow> multiplier (applyFactor m t a) \<noteq> NaN"
  by (simp add: applyFactor_def lift2_number)

lemma punctuationStep_number:
  "multiplier a \<noteq> NaN \<Longrightarrow> multiplier (punctuationStep tok a) \<noteq> NaN"
  by (simp add: punctuationStep_def applyFactor_number)

lemma lengthStep_number: "multiplier a \<noteq> NaN \<Longrightarrow> multiplier (lengthStep c a) \<noteq> NaN"
  by (simp add: lengthStep_def Let_def applyFactor_number)

lemma frequencyStep_number: "multiplier a \<noteq> NaN \<Longrightarrow> multiplier (frequencyStep c a) \<noteq> NaN"
  by (simp add: frequencyStep_def applyFactor_number)

lemma semanticStep_number: "multiplier a \<noteq> NaN \<Longrightarrow> multiplier (semanticStep c a) \<noteq> NaN"
  by (simp add: semanticStep_def Let_def applyFactor_number)

lemma tokenTypeStep_number:
  "multiplier a \<noteq> NaN \<Longrightarrow> multiplier (tokenTypeStep w c a) \<noteq> NaN"
  by (simp add: tokenTypeStep_def Let_def applyFactor_number)

lemma conceptStep_number:
  "multiplier (fst ae) \<noteq> NaN \<Longrightarrow> multiplier (fst (conceptStep c ae)) \<noteq> NaN"
  by (cases ae) (auto simp: conceptStep_def Let_def applyFactor_number)

lemma modeStep_own:
  "currentMode e \<in> {Scan, Normal, Study, Proofread} \<Longrightarrow> multiplier a \<noteq> NaN \<Longrightarrow>
   multiplier (modeStep e a) \<noteq> NaN"
  by (auto simp: modeStep_def Let_def lift2_number)

lemma modeStep_inherited: "currentMode e = Inherited p \<Longrightarrow> multiplier (modeStep e a) = NaN"
  by (simp add: modeStep_def Let_def)

lemma fatigueStep_number: "multiplier a \<noteq> NaN \<Longrightarrow> multiplier (fatigueStep e a) \<noteq> NaN"
  by (simp add: fatigueStep_def Let_def lift2_number)

lemma fatigueStep_NaN: "multiplier a = NaN \<Longrightarrow> multiplier (fatigueStep e a) = NaN"
  by (simp add: fatigueStep_def Let_def)

lemma clampStep_range:
  "multiplier a \<noteq> NaN \<Longrightarrow>
   \<exists>m. multiplier (clampStep a) = Num m \<and> 0.5 \<le> m \<and> m \<le> 3.5"
  by (cases "multiplier a") (auto simp: clampStep_def)

lemma clampStep_NaN: "multiplier a = NaN \<Longrightarrow> multiplier (clampStep a) = NaN"
  by (simp add: clampStep_def)

text \<open>
  With one of the four modes of the table as the current mode, for every token and every
  concept memory, window of recent words and fatigue level, the multiplier of the
  analysis is a real between 0.5 and 3.5.
\<close>

lemma analyzeToken_multiplier_clamped:
  assumes "currentMode e \<in> {Scan, Normal, Study, Proofread}"
  shows "\<exists>m. multiplier (fst (analyzeToken tok e)) = Num m \<and> 0.5 \<le> m \<and> m \<le> 3.5"
proof -
  have "currentMode (snd (conceptStep c (a, e))) = currentMode e" for c a
    by (simp add: conceptStep_def Let_def split: prod.split)
  with assms show ?thesis
    unfolding analyzeToken_def Let_def fst_conv
    by (intro clampStep_range fatigueStep_number modeStep_own conceptStep_number) 
       (simp_all add: tokenTypeStep_number semanticStep_number frequencyStep_number
          lengthStep_number punctuationStep_number)
qed

lemma analyzeToken_inherited_mode:
  "currentMode e = Inherited p \<Longrightarrow> multiplier (fst (analyzeToken tok e)) = NaN"
proof -
  assume m: "currentMode e = Inherited p"
  have "currentMode (snd (conceptStep c (a, e))) = currentMode e" for c a
    by (simp add: conceptStep_def Let_def split: prod.split)
  with m show ?thesis
    unfolding analyzeToken_def Let_def fst_conv
    by (intro clampStep_NaN fatigueStep_NaN modeStep_inherited) simp
qed

lemma setMode_own:
  "setMode (js ''scan'') e = (Some (modes Scan), e\<lparr>currentMode := Scan\<rparr>)"
  "setMode (js ''normal'') e = (Some (modes Normal), e\<lparr>currentMode := Normal\<rparr>)"
  "setMode (js ''study'') e = (Some (modes Study), e\<lparr>currentMode := Study\<rparr>)"
  "setMode (js ''proofread'') e = (Some (modes Proofread), e\<lparr>currentMode := Proofread\<rparr>)"
  by (simp_all add: setMode_def modeNamed_def modeNames_def js_def)

lemma setMode_unknown: "setMode (js ''fast'') e = (None, e)"
  by (simp add: setMode_def modeNamed_def modeNames_def js_def)

lemma setMode_constructor:
  "setMode (js ''constructor'') e =
     (Some (Builtin Constructor), e\<lparr>currentMode := Inherited Constructor\<rparr>)"
  by (simp add: setMode_def modeNamed_def modeNames_def js_def)

text \<open>
  C2. The multiplier of an analysis can lie outside the interval from 0.5 to 3.5.
  \<open>setMode("constructor")\<close> is accepted by every engine, since the read
  \<open>this.modes["constructor"]\<close> finds the constructor that the table inherits; it returns
  that built-in and stores the name as the current mode. From then on, for every token,
  the multiplier of the analysis that \<open>analyzeToken\<close> returns is \<open>NaN\<close>, which is neither
  at least 0.5 nor at most 3.5.
\<close>

theorem analyzeToken_multiplier_not_clamped:
  "fst (setMode (js ''constructor'') e) = Some (Builtin Constructor) \<and>
   currentMode (snd (setMode (js ''constructor'') e)) = Inherited Constructor \<and>
   multiplier (fst (analyzeToken tok (snd (setMode (js ''constructor'') e)))) = NaN \<and>
   \<not> numLessEq (Num 0.5)
       (multiplier (fst (analyzeToken tok (snd (setMode (js ''constructor'') e))))) \<and>
   \<not> numLessEq (multiplier (fst (analyzeToken tok (snd (setMode (js ''constructor'') e)))))
       (Num 3.5)"
proof -
  have "multiplier (fst (analyzeToken tok (snd (setMode (js ''constructor'') e)))) = NaN"
    by (rule analyzeToken_inherited_mode [of _ Constructor]) (simp add: setMode_constructor)
  then show ?thesis by (simp add: setMode_constructor)
qed

subsection \<open>The recognition point\<close>

lemma splitAt_concat: "prefix (splitAt w i) @ focus (splitAt w i) @ suffix (splitAt w i) = w"
  by (simp add: splitAt_def id_take_nth_drop [symmetric])

text \<open>
  The walk stops at a position of the original word before which exactly \<open>orpIndex\<close>
  characters of \<open>\w\<close> lie: punctuation is passed over without being counted.
\<close>

lemma orpWalk_counts:
  "cleanIndex \<le> orpIndex \<Longrightarrow> actualIndex \<le> length w \<Longrightarrow>
   cleanIndex = int (length (filter isWordChar (take actualIndex w))) \<Longrightarrow>
   orpIndex \<le> int (length (filter isWordChar w)) \<Longrightarrow>
   orpWalk w orpIndex actualIndex cleanIndex \<le> length w \<and>
   int (length (filter isWordChar (take (orpWalk w orpIndex actualIndex cleanIndex) w))) = orpIndex"
proof (induction w orpIndex actualIndex cleanIndex rule: orpWalk.induct)
  case (1 w orpIndex actualIndex cleanIndex)
  show ?case
  proof (cases "cleanIndex < orpIndex \<and> actualIndex < length w")
    case True
    then have lt: "actualIndex < length w" by simp
    have tk: "take (actualIndex + 1) w = take actualIndex w @ [w ! actualIndex]"
      using lt by (simp add: take_Suc_conv_app_nth)
    let ?c = "if isWordChar (w ! actualIndex) then cleanIndex + 1 else cleanIndex"
    have a: "?c \<le> orpIndex" using True by simp
    have b: "actualIndex + 1 \<le> length w" using lt by simp
    have c: "?c = int (length (filter isWordChar (take (actualIndex + 1) w)))"
      using "1.prems"(3) tk by simp
    from "1.IH" [OF True a b c "1.prems"(4)] True show ?thesis
      by (subst (1 2) orpWalk.simps) simp
  next
    case False
    have "cleanIndex = orpIndex"
    proof (rule ccontr)
      assume "cleanIndex \<noteq> orpIndex"
      then have "cleanIndex < orpIndex" using "1.prems"(1) by simp
      with False have "actualIndex = length w" using "1.prems"(2) by simp
      with "1.prems"(3,4) \<open>cleanIndex < orpIndex\<close> show False by simp
    qed
    with False "1.prems" show ?thesis
      by (subst (1 2) orpWalk.simps) auto
  qed
qed

text \<open>
  Outside the branch for a clean length of 2 the three parts make up the original word,
  whatever the offset.
\<close>

lemma calculateAdaptiveORP_concat:
  "length (stripNonWord w) \<noteq> 2 \<Longrightarrow>
   prefix (calculateAdaptiveORP w off) @ focus (calculateAdaptiveORP w off)
     @ suffix (calculateAdaptiveORP w off) = w"
  by (simp add: calculateAdaptiveORP_def Let_def splitAt_concat)

text \<open>
  C4. The claim is that prefix, focus and suffix always make up the original word. For the
  word \<open>is,\<close> the clean word \<open>is\<close> has length 2, and the calculator returns the prefix
  \<open>i\<close>, the focus \<open>s\<close> and an empty suffix: the comma is in none of the three parts.
\<close>

theorem calculateAdaptiveORP_loses_punctuation:
  "calculateAdaptiveORP (js ''is,'') 0 = \<lparr>prefix = js ''i'', focus = js ''s'', suffix = []\<rparr> \<and>
   prefix (calculateAdaptiveORP (js ''is,'') 0) @ focus (calculateAdaptiveORP (js ''is,'') 0)
     @ suffix (calculateAdaptiveORP (js ''is,'') 0) \<noteq> js ''is,''"
  by (simp add: calculateAdaptiveORP_def char_defs)

subsection \<open>The fatigue level\<close>

text \<open>
  C6. With a fatigue level between 0 and 1, a rewind event and a pause event of more than
  3000 ms do not lower the level, a resume event does not raise it, and after each of
  them the level is between 0 and 1 again.
\<close>

theorem updateFatigue_monotone:
  "0 \<le> fatigueLevel (fatigue e) \<Longrightarrow> fatigueLevel (fatigue e) \<le> 1 \<Longrightarrow>
   fatigueLevel (fatigue e) \<le> fatigueLevel (fatigue (updateFatigue now Rewind e)) \<and>
   (3000 < d \<longrightarrow>
      fatigueLevel (fatigue e) \<le> fatigueLevel (fatigue (updateFatigue now (Pause (Some d)) e))) \<and>
   fatigueLevel (fatigue (updateFatigue now (Resume r) e)) \<le> fatigueLevel (fatigue e) \<and>
   (\<forall>ev \<in> {Rewind, Pause (Some d), Resume r}.
      0 \<le> fatigueLevel (fatigue (updateFatigue now ev e)) \<and>
      fatigueLevel (fatigue (updateFatigue now ev e)) \<le> 1)"
  by (auto simp: Let_def)

theorem updateFatigue_monotone_witness:
  "fatigueLevel (fatigue newCognitiveEngine)
     \<le> fatigueLevel (fatigue (updateFatigue 0 Rewind newCognitiveEngine)) \<and>
   fatigueLevel (fatigue newCognitiveEngine)
     \<le> fatigueLevel (fatigue (updateFatigue 0 (Pause (Some 5000)) newCognitiveEngine)) \<and>
   fatigueLevel (fatigue (updateFatigue 0 (Resume None) newCognitiveEngine))
     \<le> fatigueLevel (fatigue newCognitiveEngine) \<and>
   fatigueLevel (fatigue (updateFatigue 0 (Pause (Some 5000)) newCognitiveEngine)) \<le> 1"
proof -
  have lo: "0 \<le> fatigueLevel (fatigue newCognitiveEngine)"
    and hi: "fatigueLevel (fatigue newCognitiveEngine) \<le> 1"
    by (simp_all add: newCognitiveEngine_def freshFatigue_def)
  from updateFatigue_monotone [OF lo hi, of 0 5000 None] show ?thesis by simp
qed

subsection \<open>Words per minute\<close>

text \<open>
  \<open>setWPM(NaN)\<close>, which is also what \<open>setWPM(undefined)\<close> computes: \<open>Math.min\<close> and
  \<open>Math.max\<close> give \<open>NaN\<close>, and \<open>NaN\<close> is stored and returned.
\<close>

lemma setWPM_NaN: "fst (setWPM NaN s) = NaN \<and> wpm (config (snd (setWPM NaN s))) = NaN"
  by (simp add: setWPM_def Let_def)



subsection \<open>The window of recent words\<close>

text \<open>
  The window of recent words after one analysis: a clean word of more than four
  characters is appended, and the first entry is dropped when that makes 26.
\<close>

lemma analyzeToken_recentWords:
  "recentWords (snd (analyzeToken t e)) =
     (if 4 < length (cleanWordOf (word t))
      then (if length (recentWords e @ [cleanWordOf (word t)]) > 25
            then tl (recentWords e @ [cleanWordOf (word t)])
            else recentWords e @ [cleanWordOf (word t)])
      else recentWords e)"
  by (simp add: analyzeToken_def conceptStep_def Let_def recentWindowSize_def split: prod.split)

lemma window_push_as_drop:
  "length r \<le> 25 \<Longrightarrow>
   (if length (r @ [c]) > 25 then tl (r @ [c]) else r @ [c]) = drop (length (r @ [c]) - 25) (r @ [c])"
proof (cases "length r = 25")
  case True
  then obtain a rest where r: "r = a # rest" by (cases r) auto
  from True have "length (r @ [c]) - 25 = Suc 0" by simp
  then show ?thesis using True by (simp add: r drop_Suc)
next
  case False
  assume "length r \<le> 25"
  with False show ?thesis by simp
qed

lemma analyzeAll_window_bound:
  "length (recentWords e) \<le> 25 \<Longrightarrow> length (recentWords (analyzeAll ts e)) \<le> 25"
proof (induction ts arbitrary: e)
  case Nil
  then show ?case by simp
next
  case (Cons t ts)
  have "length (recentWords (snd (analyzeToken t e))) \<le> 25"
    using Cons.prems by (simp add: analyzeToken_recentWords)
  then show ?case using Cons.IH by simp
qed

lemma analyzeAll_window:
  "length (recentWords e) \<le> 25 \<Longrightarrow> \<forall>t \<in> set ts. 4 < length (cleanWordOf (word t)) \<Longrightarrow>
   recentWords (analyzeAll ts e) =
     drop (length (recentWords e @ map (\<lambda>t. cleanWordOf (word t)) ts) - 25)
          (recentWords e @ map (\<lambda>t. cleanWordOf (word t)) ts)"
proof (induction ts arbitrary: e)
  case Nil
  then show ?case by simp
next
  case (Cons t ts)
  let ?c = "cleanWordOf (word t)"
  let ?m = "map (\<lambda>t. cleanWordOf (word t)) ts"
  let ?r = "recentWords e"
  let ?e' = "snd (analyzeToken t e)"
  have elig: "4 < length ?c" using Cons.prems(2) by simp
  have step: "recentWords ?e' = drop (length (?r @ [?c]) - 25) (?r @ [?c])"
    using elig window_push_as_drop [OF Cons.prems(1), of ?c] by (simp add: analyzeToken_recentWords)
  have bound: "length (recentWords ?e') \<le> 25"
    using step by simp
  have rest: "\<forall>t \<in> set ts. 4 < length (cleanWordOf (word t))" using Cons.prems(2) by simp
  have "recentWords (analyzeAll (t # ts) e) =
          drop (length (recentWords ?e' @ ?m) - 25) (recentWords ?e' @ ?m)"
    using Cons.IH [OF bound rest] by simp
  also have "\<dots> = drop (length (?r @ [?c] @ ?m) - 25) (?r @ [?c] @ ?m)"
  proof (cases "length ?r = 25")
    case True
    then obtain a rest where r: "?r = a # rest" by (cases ?r) auto
    from True have "length (?r @ [?c]) - 25 = Suc 0" by simp
    with step have s1: "recentWords ?e' = rest @ [?c]"
      by (simp add: r drop_Suc)
    from True r have "length rest = 24" by simp
    then show ?thesis by (simp add: s1 r drop_Suc)
  next
    case False
    with Cons.prems(1) have "recentWords ?e' = ?r @ [?c]" using step by simp
    then show ?thesis by simp
  qed
  finally show ?case by simp
qed

text \<open>
  C5. The window of recent words never holds more than 25 words: not after any run of
  analyses from a new or a reset analyzer, and a single analysis keeps the bound. After
  the analysis of 26 tokens with distinct clean words of more than four characters, from
  a reset analyzer, the window holds the clean words of the last 25 tokens in the order
  of analysis, and the first one is gone.
\<close>

theorem recent_window_last_25:
  "length (recentWords (analyzeAll ts newCognitiveEngine)) \<le> 25 \<and>
   length (recentWords (analyzeAll ts (reset e))) \<le> 25 \<and>
   (length (recentWords e) \<le> 25 \<longrightarrow> length (recentWords (snd (analyzeToken t e))) \<le> 25) \<and>
   (length ts = 26 \<longrightarrow> (\<forall>t \<in> set ts. 4 < length (cleanWordOf (word t))) \<longrightarrow>
    distinct (map (\<lambda>t. cleanWordOf (word t)) ts) \<longrightarrow>
      recentWords (analyzeAll ts (reset e)) = map (\<lambda>t. cleanWordOf (word t)) (tl ts) \<and>
      length (recentWords (analyzeAll ts (reset e))) = 25 \<and>
      cleanWordOf (word (hd ts)) \<notin> set (recentWords (analyzeAll ts (reset e))))"
proof -
  have b1: "length (recentWords (analyzeAll ts newCognitiveEngine)) \<le> 25"
    by (rule analyzeAll_window_bound) (simp add: newCognitiveEngine_def)
  have b2: "length (recentWords (analyzeAll ts (reset e))) \<le> 25"
    by (rule analyzeAll_window_bound) (simp add: reset_def)
  have b3: "length (recentWords e) \<le> 25 \<longrightarrow> length (recentWords (snd (analyzeToken t e))) \<le> 25"
    by (simp add: analyzeToken_recentWords)
  have b4: "recentWords (analyzeAll ts (reset e)) = map (\<lambda>t. cleanWordOf (word t)) (tl ts) \<and>
      length (recentWords (analyzeAll ts (reset e))) = 25 \<and>
      cleanWordOf (word (hd ts)) \<notin> set (recentWords (analyzeAll ts (reset e)))"
    if len: "length ts = 26" and el: "\<forall>t \<in> set ts. 4 < length (cleanWordOf (word t))"
      and di: "distinct (map (\<lambda>t. cleanWordOf (word t)) ts)"
  proof -
    have r0: "length (recentWords (reset e)) \<le> 25" by (simp add: reset_def)
    have w: "recentWords (analyzeAll ts (reset e)) = drop 1 (map (\<lambda>t. cleanWordOf (word t)) ts)"
      using analyzeAll_window [OF r0 el] len by (simp add: reset_def)
    from len obtain t0 rest where ts: "ts = t0 # rest" by (cases ts) auto
    show ?thesis using w di len by (simp add: ts)
  qed
  from b1 b2 b3 b4 show ?thesis by blast
qed

lemma sampleToken_clean:
  "n < 26 \<Longrightarrow> cleanWordOf (word (sampleToken n)) = js ''token'' @ [97 + n]"
  by (simp add: sampleToken_def char_defs)

text \<open>
  The 26 sample tokens satisfy the conditions of C5.
\<close>

theorem recent_window_last_25_witness:
  "recentWords (analyzeAll sampleTokens (reset newCognitiveEngine)) =
     map (\<lambda>t. cleanWordOf (word t)) (tl sampleTokens) \<and>
   length (recentWords (analyzeAll sampleTokens (reset newCognitiveEngine))) = 25 \<and>
   cleanWordOf (word (hd sampleTokens))
     \<notin> set (recentWords (analyzeAll sampleTokens (reset newCognitiveEngine))) \<and>
   length sampleTokens = 26"
proof -
  have len: "length sampleTokens = 26" by (simp add: sampleTokens_def)
  have cl: "map (\<lambda>t. cleanWordOf (word t)) sampleTokens = map (\<lambda>n. js ''token'' @ [97 + n]) [0..<26]"
    unfolding sampleTokens_def map_map comp_def
    by (rule map_cong) (simp_all add: sampleToken_clean)
  have el: "\<forall>t \<in> set sampleTokens. 4 < length (cleanWordOf (word t))"
    unfolding sampleTokens_def by (auto simp: sampleToken_clean js_def)
  have di: "distinct (map (\<lambda>t. cleanWordOf (word t)) sampleTokens)"
    unfolding cl by (simp add: distinct_map inj_on_def)
  from recent_window_last_25 [of sampleTokens newCognitiveEngine] len el di
  show ?thesis by blast
qed

subsection \<open>The current word\<close>

text \<open>
  What the blocks of \<open>getCurrentWord\<close> leave unchanged.
\<close>

lemma analyzeToken_frame:
  "fatigue (snd (analyzeToken t e)) = fatigue e \<and>
   comprehension (snd (analyzeToken t e)) = comprehension e \<and>
   currentMode (snd (analyzeToken t e)) = currentMode e"
  by (simp add: analyzeToken_def conceptStep_def Let_def split: prod.split)

lemma analyseCurrent_frame:
  "words (snd (analyseCurrent s)) = words s \<and>
   tokens (snd (analyseCurrent s)) = tokens s \<and>
   currentIndex (snd (analyseCurrent s)) = currentIndex s \<and>
   isPlaying (snd (analyseCurrent s)) = isPlaying s \<and>
   skipCount (snd (analyseCurrent s)) = skipCount s \<and>
   timers (snd (analyseCurrent s)) = timers s \<and>
   timeoutId (snd (analyseCurrent s)) = timeoutId s \<and>
   nextTimer (snd (analyseCurrent s)) = nextTimer s \<and>
   clock (snd (analyseCurrent s)) = clock s \<and>
   config (snd (analyseCurrent s)) = config s \<and>
   wordChanges (snd (analyseCurrent s)) = wordChanges s \<and>
   fatigue (cognitive (snd (analyseCurrent s))) = fatigue (cognitive s) \<and>
   comprehension (cognitive (snd (analyseCurrent s))) = comprehension (cognitive s)"
  by (simp add: analyseCurrent_def notify_def wordChanges_def analyzeToken_frame Let_def)

lemma currentToken_analyseCurrent: "currentToken (snd (analyseCurrent s)) = currentToken s"
  by (simp add: currentToken_def analyseCurrent_frame Let_def)

lemma collocationUnit_frame:
  "words (snd (collocationUnit s)) = words s \<and>
   tokens (snd (collocationUnit s)) = tokens s \<and>
   currentIndex (snd (collocationUnit s)) = currentIndex s \<and>
   isPlaying (snd (collocationUnit s)) = isPlaying s \<and>
   timers (snd (collocationUnit s)) = timers s \<and>
   timeoutId (snd (collocationUnit s)) = timeoutId s \<and>
   nextTimer (snd (collocationUnit s)) = nextTimer s \<and>
   clock (snd (collocationUnit s)) = clock s \<and>
   config (snd (collocationUnit s)) = config s \<and>
   notifications (snd (collocationUnit s)) = notifications s \<and>
   wordChanges (snd (collocationUnit s)) = wordChanges s \<and>
   cognitive (snd (collocationUnit s)) = cognitive s"
  by (simp add: collocationUnit_def wordChanges_def split: option.split)

lemma afterWord_frame:
  "words (afterWord s) = words s \<and>
   tokens (afterWord s) = tokens s \<and>
   currentIndex (afterWord s) = currentIndex s \<and>
   isPlaying (afterWord s) = isPlaying s \<and>
   timers (afterWord s) = timers s \<and>
   timeoutId (afterWord s) = timeoutId s \<and>
   nextTimer (afterWord s) = nextTimer s \<and>
   clock (afterWord s) = clock s \<and>
   config (afterWord s) = config s \<and>
   wordChanges (afterWord s) = wordChanges s \<and>
   fatigue (cognitive (afterWord s)) = fatigue (cognitive s) \<and>
   comprehension (cognitive (afterWord s)) = comprehension (cognitive s)"
  by (simp add: afterWord_def collocationUnit_frame analyseCurrent_frame)

lemma afterWord_skipCount:
  "skipCount (afterWord s) =
     (case collocation (currentToken s) of
        Some c \<Rightarrow> if skipCount s = 0 then c_length c - 1 else skipCount s
      | None \<Rightarrow> skipCount s)"
  by (simp add: afterWord_def collocationUnit_def currentToken_analyseCurrent analyseCurrent_frame
      split: option.split)

lemma getCurrentWord_cases:
  "getCurrentWord s = Inr (None, s) \<or> getCurrentWord s = Inl TypeError \<or>
   (\<exists>cw. getCurrentWord s = Inr (Some cw, afterWord s))"
  by (simp add: getCurrentWord_def afterWord_def Let_def)

lemma getCurrentWord_in_range:
  "0 \<le> currentIndex s \<Longrightarrow> currentIndex s < int (length (words s)) \<Longrightarrow>
   \<exists>cw. getCurrentWord s = Inr (Some cw, afterWord s) \<and>
        cw_word cw = words s ! nat (currentIndex s) \<and>
        displayText cw = fst (fst (collocationUnit (snd (analyseCurrent s)))) \<and>
        isCollocation cw = snd (fst (collocationUnit (snd (analyseCurrent s)))) \<and>
        analysis cw = fst (analyseCurrent s)"
  by (simp add: getCurrentWord_def afterWord_def Let_def)

text \<open>
  The rewind counters change with a rewind event only: every operation that sends none
  keeps them.
\<close>

lemma cognitive_simple [simp]:
  "cognitive (notify n s) = cognitive s"
  "cognitive (scheduleStep d s) = cognitive s"
  "cognitive (clearPending s) = cognitive s"
  "cognitive (complete_reading s) = cognitive s"
  "cognitive (fatigueEvent ev s) = updateFatigue (clock s) ev (cognitive s)"
  by (simp_all add: notify_def scheduleStep_def clearPending_def complete_reading_def
      fatigueEvent_def Let_def split: option.split)

lemma updateFatigue_rewinds:
  "rewinds (fatigue (updateFatigue now ev e)) =
     (if ev = Rewind then Suc (rewinds (fatigue e)) else rewinds (fatigue e))"
  "rewindCount (comprehension (updateFatigue now ev e)) =
     (if ev = Rewind then Suc (rewindCount (comprehension e)) else rewindCount (comprehension e))"
  by (cases ev; simp add: Let_def split: option.split)+

lemma rewindCounters_afterWord: "rewindCounters (afterWord s) = rewindCounters s"
  by (simp add: rewindCounters_def afterWord_frame)

lemma rewindCounters_getCurrentWord:
  "getCurrentWord s = Inr (cw, s') \<Longrightarrow> rewindCounters s' = rewindCounters s"
  using getCurrentWord_cases [of s] by (auto simp: rewindCounters_afterWord)

lemma rewindCounters_showNextWord: "rewindCounters (snd (showNextWord s)) = rewindCounters s"
proof (cases "getCurrentWord s")
  case (Inl err)
  then show ?thesis
    by (simp add: showNextWord_def Let_def rewindCounters_def)
next
  case (Inr r)
  obtain cw s' where r: "r = (cw, s')" by (cases r)
  have "rewindCounters s' = rewindCounters s"
    using rewindCounters_getCurrentWord Inr r by simp
  then have s': "rewinds (fatigue (cognitive s')) = rewinds (fatigue (cognitive s))"
    "rewindCount (comprehension (cognitive s')) = rewindCount (comprehension (cognitive s))"
    by (simp_all add: rewindCounters_def)
  show ?thesis
    by (simp add: showNextWord_def Let_def Inr r s' rewindCounters_def updateFatigue_rewinds
        split: option.split)
qed

lemma rewindCounters_enterPlaying: "rewindCounters (enterPlaying s) = rewindCounters s"
  by (simp add: enterPlaying_def Let_def rewindCounters_def updateFatigue_rewinds
      split: option.split)

lemma rewindCounters_play: "rewindCounters (snd (play s)) = rewindCounters s"
proof (cases "showNextWord (enterPlaying s)")
  case (Pair r s1)
  have "rewindCounters s1 = rewindCounters s"
    using rewindCounters_showNextWord [of "enterPlaying s"] Pair by (simp add: rewindCounters_enterPlaying)
  then show ?thesis by (cases r) (simp_all add: play_def Pair)
qed

lemma rewindCounters_pause: "rewindCounters (snd (pause s)) = rewindCounters s"
  by (simp add: pause_def Let_def rewindCounters_def updateFatigue_rewinds)

lemma rewindCounters_announce: "rewindCounters (snd (announce p s)) = rewindCounters s"
proof -
  have "rewindCounters (afterWord s) = rewindCounters s" by (rule rewindCounters_afterWord)
  then have "rewinds (fatigue (cognitive (afterWord s))) = rewinds (fatigue (cognitive s))"
    "rewindCount (comprehension (cognitive (afterWord s))) = rewindCount (comprehension (cognitive s))"
    by (simp_all add: rewindCounters_def)
  then show ?thesis
    using getCurrentWord_cases [of s]
    by (auto simp: announce_def Let_def rewindCounters_def)
qed

lemma rewindCounters_resumeIf: "rewindCounters (snd (resumeIf b s)) = rewindCounters s"
proof (cases "play s")
  case (Pair r s1)
  have "rewindCounters s1 = rewindCounters s" using rewindCounters_play [of s] Pair by simp
  then show ?thesis by (cases r) (simp_all add: resumeIf_def Pair)
qed

text \<open>The end of a navigation: announce, then resume.\<close>

lemma rewindCounters_announce_resume:
  "rewindCounters (snd (case announce p s of
                          (Inl err, s3) \<Rightarrow> (Inl err, s3)
                        | (Inr u, s3) \<Rightarrow> resumeIf b s3)) = rewindCounters s"
proof (cases "announce p s")
  case (Pair r s3)
  have "rewindCounters s3 = rewindCounters s" using rewindCounters_announce [of p s] Pair by simp
  then show ?thesis by (cases r) (simp_all add: Pair rewindCounters_resumeIf)
qed

lemma rewindCounters_goToWord: "rewindCounters (snd (goToWord i s)) = rewindCounters s"
proof -
  have "rewindCounters ((if isPlaying s then snd (pause s) else s)
          \<lparr>currentIndex := a, skipCount := 0\<rparr>) = rewindCounters s" for a
    using rewindCounters_pause [of s] by (simp add: rewindCounters_def)
  then show ?thesis
    by (simp add: goToWord_def Let_def rewindCounters_announce_resume)
qed

lemma rewindCounters_jump:
  "rewindCounters (snd (jump n s)) =
     (if n < 0 then (Suc (fst (rewindCounters s)), Suc (snd (rewindCounters s)))
      else rewindCounters s)"
  by (simp add: jump_def Let_def rewindCounters_goToWord) (simp add: rewindCounters_def updateFatigue_rewinds)

lemma rewindCounters_prev:
  "rewindCounters (snd (prev s)) =
     (if 0 < currentIndex s then (Suc (fst (rewindCounters s)), Suc (snd (rewindCounters s)))
      else rewindCounters s)"
proof -
  have "rewindCounters (fatigueEvent Rewind ((if isPlaying s then snd (pause s) else s)
          \<lparr>currentIndex := a, skipCount := 0\<rparr>)) =
        (Suc (fst (rewindCounters s)), Suc (snd (rewindCounters s)))" for a
    using rewindCounters_pause [of s] by (simp add: rewindCounters_def updateFatigue_rewinds)
  then show ?thesis
    by (simp add: prev_def Let_def rewindCounters_announce_resume)
qed

subsection \<open>Steps of the playback\<close>

text \<open>
  The fields of the state after the elementary steps.
\<close>

lemma wordChanges_notify: "wordChanges (notify n s) = wordChanges s @ wordChangeOf n"
  by (simp add: wordChanges_def notify_def)

lemma pendingSteps_scheduleStep: "pendingSteps (scheduleStep d s) = pendingSteps s @ [nextTimer s]"
  by (simp add: pendingSteps_def scheduleStep_def)

lemma complete_reading_fields:
  "words (complete_reading s) = words s \<and> tokens (complete_reading s) = tokens s \<and>
   currentIndex (complete_reading s) = currentIndex s \<and>
   skipCount (complete_reading s) = skipCount s \<and>
   isPlaying (complete_reading s) = False \<and>
   timers (complete_reading s) = timers s \<and> timeoutId (complete_reading s) = timeoutId s \<and>
   nextTimer (complete_reading s) = nextTimer s \<and> config (complete_reading s) = config s \<and>
   clock (complete_reading s) = clock s \<and>
   wordChanges (complete_reading s) = wordChanges s"
  by (simp add: complete_reading_def Let_def notify_def wordChanges_def)

lemma fatigueEvent_fields:
  "words (fatigueEvent ev s) = words s \<and> tokens (fatigueEvent ev s) = tokens s \<and>
   currentIndex (fatigueEvent ev s) = currentIndex s \<and>
   skipCount (fatigueEvent ev s) = skipCount s \<and>
   isPlaying (fatigueEvent ev s) = isPlaying s \<and>
   timers (fatigueEvent ev s) = timers s \<and> timeoutId (fatigueEvent ev s) = timeoutId s \<and>
   nextTimer (fatigueEvent ev s) = nextTimer s \<and> config (fatigueEvent ev s) = config s \<and>
   clock (fatigueEvent ev s) = clock s \<and>
   notifications (fatigueEvent ev s) = notifications s \<and>
   wordChanges (fatigueEvent ev s) = wordChanges s"
  by (simp add: fatigueEvent_def wordChanges_def)

lemma notify_fields:
  "words (notify n s) = words s \<and> tokens (notify n s) = tokens s \<and>
   currentIndex (notify n s) = currentIndex s \<and>
   skipCount (notify n s) = skipCount s \<and>
   isPlaying (notify n s) = isPlaying s \<and>
   timers (notify n s) = timers s \<and> timeoutId (notify n s) = timeoutId s \<and>
   nextTimer (notify n s) = nextTimer s \<and> config (notify n s) = config s \<and>
   clock (notify n s) = clock s"
  by (simp add: notify_def)

lemma scheduleStep_fields:
  "words (scheduleStep d s) = words s \<and> tokens (scheduleStep d s) = tokens s \<and>
   currentIndex (scheduleStep d s) = currentIndex s \<and>
   skipCount (scheduleStep d s) = skipCount s \<and>
   isPlaying (scheduleStep d s) = isPlaying s \<and>
   timeoutId (scheduleStep d s) = Some (nextTimer s) \<and>
   nextTimer (scheduleStep d s) = Suc (nextTimer s) \<and> config (scheduleStep d s) = config s \<and>
   clock (scheduleStep d s) = clock s \<and>
   wordChanges (scheduleStep d s) = wordChanges s"
  by (simp add: scheduleStep_def wordChanges_def)

lemma pendingSteps_simple:
  "pendingSteps (notify n s) = pendingSteps s"
  "pendingSteps (fatigueEvent ev s) = pendingSteps s"
  "pendingSteps (complete_reading s) = pendingSteps s"
  "pendingSteps (afterWord s) = pendingSteps s"
  "pendingSteps (s\<lparr>currentIndex := i\<rparr>) = pendingSteps s"
  by (simp_all add: pendingSteps_def notify_fields fatigueEvent_fields complete_reading_fields
      afterWord_frame)

lemma wordChanges_update:
  "wordChanges (s\<lparr>currentIndex := i\<rparr>) = wordChanges s"
  "wordChanges (s\<lparr>skipCount := k, currentIndex := i\<rparr>) = wordChanges s"
  by (simp_all add: wordChanges_def)

text \<open>A step that skips the tail of a collocation.\<close>

lemma showNextWord_skip:
  "0 < skipCount s \<Longrightarrow>
   showNextWord s =
     (Inr (), if isPlaying s \<and> currentIndex s + 1 < int (length (words s))
              then scheduleStep 10 (s\<lparr>skipCount := skipCount s - 1, currentIndex := currentIndex s + 1\<rparr>)
              else s\<lparr>skipCount := skipCount s - 1, currentIndex := currentIndex s + 1\<rparr>)"
  by (simp add: showNextWord_def Let_def)

text \<open>A step that shows a word.\<close>

lemma showNextWord_word:
  assumes "skipCount s = 0" and "0 \<le> currentIndex s" and "currentIndex s < int (length (words s))"
  shows "\<exists>cw. fst (showNextWord s) = Inr () \<and>
     wordChanges (snd (showNextWord s)) = wordChanges s @ [Some cw] \<and>
     displayText cw = fst (fst (collocationUnit (snd (analyseCurrent s)))) \<and>
     isCollocation cw = snd (fst (collocationUnit (snd (analyseCurrent s)))) \<and>
     words (snd (showNextWord s)) = words s \<and>
     tokens (snd (showNextWord s)) = tokens s \<and>
     config (snd (showNextWord s)) = config s \<and>
     currentIndex (snd (showNextWord s)) = currentIndex s + 1 \<and>
     skipCount (snd (showNextWord s)) = skipCount (afterWord s) \<and>
     isPlaying (snd (showNextWord s)) =
       (isPlaying s \<and> currentIndex s + 1 < int (length (words s))) \<and>
     pendingSteps (snd (showNextWord s)) =
       (if isPlaying s \<and> currentIndex s + 1 < int (length (words s))
        then pendingSteps s @ [nextTimer s] else pendingSteps s) \<and>
     timeoutId (snd (showNextWord s)) =
       (if isPlaying s \<and> currentIndex s + 1 < int (length (words s))
        then Some (nextTimer s) else timeoutId s) \<and>
     nextTimer (snd (showNextWord s)) =
       (if isPlaying s \<and> currentIndex s + 1 < int (length (words s))
        then Suc (nextTimer s) else nextTimer s)"
proof -
  from getCurrentWord_in_range [OF assms(2,3)] obtain cw where
    g: "getCurrentWord s = Inr (Some cw, afterWord s)" and
    d: "displayText cw = fst (fst (collocationUnit (snd (analyseCurrent s))))"
       "isCollocation cw = snd (fst (collocationUnit (snd (analyseCurrent s))))"
    by blast
  have "fst (showNextWord s) = Inr () \<and>
     wordChanges (snd (showNextWord s)) = wordChanges s @ [Some cw] \<and>
     words (snd (showNextWord s)) = words s \<and>
     tokens (snd (showNextWord s)) = tokens s \<and>
     config (snd (showNextWord s)) = config s \<and>
     currentIndex (snd (showNextWord s)) = currentIndex s + 1 \<and>
     skipCount (snd (showNextWord s)) = skipCount (afterWord s) \<and>
     isPlaying (snd (showNextWord s)) =
       (isPlaying s \<and> currentIndex s + 1 < int (length (words s))) \<and>
     pendingSteps (snd (showNextWord s)) =
       (if isPlaying s \<and> currentIndex s + 1 < int (length (words s))
        then pendingSteps s @ [nextTimer s] else pendingSteps s) \<and>
     timeoutId (snd (showNextWord s)) =
       (if isPlaying s \<and> currentIndex s + 1 < int (length (words s))
        then Some (nextTimer s) else timeoutId s) \<and>
     nextTimer (snd (showNextWord s)) =
       (if isPlaying s \<and> currentIndex s + 1 < int (length (words s))
        then Suc (nextTimer s) else nextTimer s)"
    using assms
    by (simp add: showNextWord_def Let_def g progressOf_def
        scheduleStep_fields complete_reading_fields notify_fields fatigueEvent_fields
        afterWord_frame wordChanges_notify pendingSteps_scheduleStep pendingSteps_simple
        wordChanges_update)
  with d show ?thesis by blast
qed

text \<open>
  The fields of the state after \<open>play\<close>, \<open>pause\<close>, \<open>load\<close> and the run of a timer.
\<close>

lemma enterPlaying_fields:
  "words (enterPlaying s) = words s \<and> tokens (enterPlaying s) = tokens s \<and>
   config (enterPlaying s) = config s \<and>
   currentIndex (enterPlaying s) =
     (if int (length (words s)) \<le> currentIndex s then 0 else currentIndex s) \<and>
   skipCount (enterPlaying s) = skipCount s \<and>
   isPlaying (enterPlaying s) = True \<and>
   pendingSteps (enterPlaying s) = pendingSteps s \<and>
   timeoutId (enterPlaying s) = timeoutId s \<and>
   nextTimer (enterPlaying s) = nextTimer s \<and>
   wordChanges (enterPlaying s) = wordChanges s"
  by (simp add: enterPlaying_def Let_def notify_def fatigueEvent_def wordChanges_def
      pendingSteps_def split: option.split)

lemma play_snd: "words s \<noteq> [] \<Longrightarrow> snd (play s) = snd (showNextWord (enterPlaying s))"
  by (simp add: play_def split: prod.split sum.split)

lemma pause_fields:
  "isPlaying s \<Longrightarrow>
   words (snd (pause s)) = words s \<and> tokens (snd (pause s)) = tokens s \<and>
   config (snd (pause s)) = config s \<and>
   currentIndex (snd (pause s)) = currentIndex s \<and>
   skipCount (snd (pause s)) = skipCount s \<and>
   isPlaying (snd (pause s)) = False \<and>
   pendingSteps (snd (pause s)) =
     (case timeoutId s of None \<Rightarrow> pendingSteps s
      | Some t \<Rightarrow> if t = 0 then pendingSteps s else filter (\<lambda>i. i \<noteq> t) (pendingSteps s)) \<and>
   nextTimer (snd (pause s)) = nextTimer s \<and>
   wordChanges (snd (pause s)) = wordChanges s"
  by (simp add: pause_def Let_def notify_def fatigueEvent_def clearPending_def wordChanges_def
      pendingSteps_def filter_map comp_def split: option.split)

lemma load_fields:
  "words (snd (load txt s)) = parseText txt \<and>
   tokens (snd (load txt s)) = preprocessText txt \<and>
   config (snd (load txt s)) = config s \<and>
   currentIndex (snd (load txt s)) = 0 \<and>
   skipCount (snd (load txt s)) = 0 \<and>
   isPlaying (snd (load txt s)) = False \<and>
   nextTimer (snd (load txt s)) = nextTimer s \<and>
   wordChanges (snd (load txt s)) = wordChanges s \<and>
   cognitive (snd (load txt s)) = updateFatigue (clock s) Start (reset (cognitive s))"
  by (simp add: load_def Let_def notify_def fatigueEvent_def clearPending_def wordChanges_def
      split: option.split)

lemma load_new_timers:
  "pendingSteps (snd (load txt (newSpeedReader opts now))) = [] \<and>
   timeoutId (snd (load txt (newSpeedReader opts now))) = None"
  by (simp add: load_def Let_def notify_def fatigueEvent_def clearPending_def wordChanges_def
      pendingSteps_def newSpeedReader_def)

lemma fireTimer_pending:
  "t \<in> set (pendingSteps s) \<Longrightarrow>
   \<exists>due. fireTimer t s =
      showNextWord (s\<lparr>timers := filter (\<lambda>p. fst p \<noteq> t) (timers s), clock := max (clock s) due\<rparr>)"
proof -
  assume "t \<in> set (pendingSteps s)"
  then have "map_of (timers s) t \<noteq> None"
    by (simp add: pendingSteps_def map_of_eq_None_iff)
  then obtain due where "map_of (timers s) t = Some due" by blast
  then show ?thesis by (auto simp: fireTimer_def)
qed

text \<open>
  When the timer stored in \<open>timeoutId\<close> is the only one pending, \<open>pause()\<close> leaves none.
\<close>

lemma pause_cancels_stored_step:
  "isPlaying s \<Longrightarrow> timeoutId s = Some t \<Longrightarrow> t \<noteq> 0 \<Longrightarrow> pendingSteps s = [t] \<Longrightarrow>
   pendingSteps (snd (pause s)) = []"
  using pause_fields [of s] by simp

subsection \<open>Collocations and tokens\<close>

text \<open>
  A word that is the first word of no phrase of the catalogue starts no collocation.
\<close>

lemma collocationMatches_head:
  "c \<noteq> [] \<Longrightarrow> collocationMatches ws i c \<Longrightarrow> stripNonWord (toLowerCase (ws ! i)) = hd c"
proof -
  assume "c \<noteq> []" and m: "collocationMatches ws i c"
  then have "0 \<in> set [0..<length c]" by simp
  with m have "stripNonWord (toLowerCase (ws ! (i + 0))) = c ! 0"
    unfolding collocationMatches_def by blast
  with \<open>c \<noteq> []\<close> show ?thesis by (simp add: hd_conv_nth)
qed

lemma detectIn_no_head:
  "[] \<notin> set cat \<Longrightarrow> stripNonWord (toLowerCase (ws ! i)) \<notin> set (map hd cat) \<Longrightarrow>
   detectIn cat ws i = None"
proof (induction cat)
  case Nil
  then show ?case by simp
next
  case (Cons c cat)
  then have "c \<noteq> []" and "stripNonWord (toLowerCase (ws ! i)) \<noteq> hd c" by auto
  then have "\<not> collocationMatches ws i c" using collocationMatches_head by blast
  with Cons show ?case by simp
qed

lemma collocation_heads:
  "[] \<notin> set collocations \<and>
   map hd collocations = map js [''in'', ''as'', ''in'', ''in'', ''on'', ''in'', ''by'', ''in'',
     ''with'', ''on'', ''in'', ''at'', ''on'', ''as'', ''for'', ''for'', ''in'', ''that'', ''in'',
     ''of'', ''at'', ''at'', ''at'', ''first'', ''going'', ''used'', ''have'', ''has'',
     ''want'', ''need'', ''able'', ''ought'', ''right'', ''so'', ''up'', ''from'']"
  by (simp add: collocations_def)

lemma detectCollocation_none:
  "stripNonWord (toLowerCase (ws ! i)) \<notin> set (map hd collocations) \<Longrightarrow>
   detectCollocation ws i = None"
  unfolding detectCollocation_def using collocation_heads by (intro detectIn_no_head) auto

lemma paragraphTokens_nth:
  "k < length ws \<Longrightarrow>
   word (paragraphTokens n p g ws ! k) = ws ! k \<and>
   collocation (paragraphTokens n p g ws ! k) = detectCollocation ws k \<and>
   isLastInParagraph (paragraphTokens n p g ws ! k) = (k = length ws - 1)"
  by (simp add: paragraphTokens_def)

lemma length_paragraphTokens: "length (paragraphTokens n p g ws) = length ws"
  by (simp add: paragraphTokens_def)

lemma preprocessText_one_paragraph:
  "splitParagraphs 0 [] txt = [txt] \<Longrightarrow>
   preprocessText txt = paragraphTokens 1 0 0 (splitWhitespace [] txt)"
  by (simp add: preprocessText_def Let_def)

lemma currentToken_nth:
  "0 \<le> currentIndex s \<Longrightarrow> nat (currentIndex s) < length (tokens s) \<Longrightarrow>
   currentToken s = tokens s ! nat (currentIndex s)"
  by (simp add: currentToken_def Let_def)

subsection \<open>A step left pending by a second play\<close>

text \<open>A step that shows a word which starts no collocation.\<close>

lemma showNextWord_plain:
  assumes "skipCount s = 0" and "0 \<le> currentIndex s" and "currentIndex s < int (length (words s))"
    and "nat (currentIndex s) < length (tokens s)"
    and "collocation (tokens s ! nat (currentIndex s)) = None"
  shows "length (wordChanges (snd (showNextWord s))) = Suc (length (wordChanges s)) \<and>
     words (snd (showNextWord s)) = words s \<and>
     tokens (snd (showNextWord s)) = tokens s \<and>
     currentIndex (snd (showNextWord s)) = currentIndex s + 1 \<and>
     skipCount (snd (showNextWord s)) = 0 \<and>
     isPlaying (snd (showNextWord s)) =
       (isPlaying s \<and> currentIndex s + 1 < int (length (words s))) \<and>
     pendingSteps (snd (showNextWord s)) =
       (if isPlaying s \<and> currentIndex s + 1 < int (length (words s))
        then pendingSteps s @ [nextTimer s] else pendingSteps s) \<and>
     timeoutId (snd (showNextWord s)) =
       (if isPlaying s \<and> currentIndex s + 1 < int (length (words s))
        then Some (nextTimer s) else timeoutId s) \<and>
     nextTimer (snd (showNextWord s)) =
       (if isPlaying s \<and> currentIndex s + 1 < int (length (words s))
        then Suc (nextTimer s) else nextTimer s)"
proof -
  have "skipCount (afterWord s) = 0"
    using assms by (simp add: afterWord_skipCount currentToken_nth)
  with showNextWord_word [OF assms(1-3)] show ?thesis by auto
qed

text \<open>
  The run on the text \<open>a b c d\<close>.
\<close>

lemma fourWords_no_collocation:
  "k < 4 \<Longrightarrow> detectCollocation [js ''a'', js ''b'', js ''c'', js ''d''] k = None"
proof (rule detectCollocation_none)
  assume "k < 4"
  then have "k = 0 \<or> k = Suc 0 \<or> k = 2 \<or> k = 3" by arith
  then show "stripNonWord (toLowerCase ([js ''a'', js ''b'', js ''c'', js ''d''] ! k))
               \<notin> set (map hd collocations)"
    by (auto simp: collocation_heads char_defs)
qed

lemma newSpeedReader_fields:
  "nextTimer (newSpeedReader opts now) = Suc 0 \<and> wordChanges (newSpeedReader opts now) = [] \<and>
   adaptiveMode (config (newSpeedReader noOptions now)) \<and>
   cognitive (newSpeedReader opts now) = newCognitiveEngine"
  by (simp add: newSpeedReader_def wordChanges_def noOptions_def notFalse_def)

lemma parseText_fourWords: "parseText (js ''a b c d'') = map js [''a'', ''b'', ''c'', ''d'']"
  by (simp add: parseText_def replaceCR_def char_defs)

lemma preprocessText_fourWords:
  "preprocessText (js ''a b c d'') = paragraphTokens 1 0 0 (map js [''a'', ''b'', ''c'', ''d''])"
proof -
  have "splitParagraphs 0 [] (js ''a b c d'') = [js ''a b c d'']"
    by (simp add: paragraphBreakAt_def char_defs)
  moreover have "splitWhitespace [] (js ''a b c d'') = map js [''a'', ''b'', ''c'', ''d'']"
    by (simp add: char_defs)
  ultimately show ?thesis by (simp add: preprocessText_one_paragraph)
qed

lemma fourWords_fields:
  "words fourWords = map js [''a'', ''b'', ''c'', ''d''] \<and>
   tokens fourWords = paragraphTokens 1 0 0 (map js [''a'', ''b'', ''c'', ''d'']) \<and>
   currentIndex fourWords = 0 \<and> skipCount fourWords = 0 \<and> \<not> isPlaying fourWords \<and>
   pendingSteps fourWords = [] \<and> timeoutId fourWords = None \<and> nextTimer fourWords = 1 \<and>
   wordChanges fourWords = []"
  unfolding fourWords_def
  by (simp add: load_fields load_new_timers parseText_fourWords preprocessText_fourWords newSpeedReader_fields)

lemma fourWords_token_plain:
  "k < 4 \<Longrightarrow> collocation (paragraphTokens n p g [js ''a'', js ''b'', js ''c'', js ''d''] ! k) = None"
  by (simp add: paragraphTokens_nth fourWords_no_collocation)

lemma playedOnce_fields:
  "words playedOnce = map js [''a'', ''b'', ''c'', ''d''] \<and>
   tokens playedOnce = paragraphTokens 1 0 0 (map js [''a'', ''b'', ''c'', ''d'']) \<and>
   currentIndex playedOnce = 1 \<and> skipCount playedOnce = 0 \<and> isPlaying playedOnce \<and>
   pendingSteps playedOnce = [1] \<and> timeoutId playedOnce = Some 1 \<and> nextTimer playedOnce = 2 \<and>
   length (wordChanges playedOnce) = 1"
proof -
  let ?s = "enterPlaying fourWords"
  have p: "playedOnce = snd (showNextWord ?s)"
    unfolding playedOnce_def by (rule play_snd) (simp add: fourWords_fields)
  have "skipCount ?s = 0" "0 \<le> currentIndex ?s" "currentIndex ?s < int (length (words ?s))"
    "nat (currentIndex ?s) < length (tokens ?s)"
    "collocation (tokens ?s ! nat (currentIndex ?s)) = None"
    by (simp_all add: enterPlaying_fields fourWords_fields length_paragraphTokens fourWords_token_plain)
  from showNextWord_plain [OF this] show ?thesis
    by (simp add: p enterPlaying_fields fourWords_fields)
qed

lemma playedTwice_fields:
  "words playedTwice = [js ''a'', js ''b'', js ''c'', js ''d''] \<and>
   tokens playedTwice = paragraphTokens 1 0 0 [js ''a'', js ''b'', js ''c'', js ''d''] \<and>
   currentIndex playedTwice = 2 \<and> skipCount playedTwice = 0 \<and> isPlaying playedTwice \<and>
   pendingSteps playedTwice = [1, 2] \<and> timeoutId playedTwice = Some 2 \<and>
   nextTimer playedTwice = 3 \<and> length (wordChanges playedTwice) = 2"
proof -
  let ?s = "enterPlaying playedOnce"
  have p: "playedTwice = snd (showNextWord ?s)"
    unfolding playedTwice_def by (rule play_snd) (simp add: playedOnce_fields)
  have "skipCount ?s = 0" "0 \<le> currentIndex ?s" "currentIndex ?s < int (length (words ?s))"
    "nat (currentIndex ?s) < length (tokens ?s)"
    "collocation (tokens ?s ! nat (currentIndex ?s)) = None"
    by (simp_all add: enterPlaying_fields playedOnce_fields length_paragraphTokens fourWords_token_plain)
  from showNextWord_plain [OF this] show ?thesis
    by (simp add: p enterPlaying_fields playedOnce_fields)
qed

lemma thenPaused_fields:
  "words thenPaused = [js ''a'', js ''b'', js ''c'', js ''d''] \<and>
   tokens thenPaused = paragraphTokens 1 0 0 [js ''a'', js ''b'', js ''c'', js ''d''] \<and>
   currentIndex thenPaused = 2 \<and> skipCount thenPaused = 0 \<and> \<not> isPlaying thenPaused \<and>
   pendingSteps thenPaused = [1] \<and> length (wordChanges thenPaused) = 2"
proof -
  have "isPlaying playedTwice" by (simp add: playedTwice_fields)
  from pause_fields [OF this] show ?thesis
    unfolding thenPaused_def by (simp add: playedTwice_fields)
qed

lemma removeTimer_fields:
  "pendingSteps (s\<lparr>timers := filter (\<lambda>p. fst p \<noteq> t) (timers s), clock := c\<rparr>) =
     filter (\<lambda>i. i \<noteq> t) (pendingSteps s) \<and>
   wordChanges (s\<lparr>timers := filter (\<lambda>p. fst p \<noteq> t) (timers s), clock := c\<rparr>) = wordChanges s"
  by (simp add: pendingSteps_def wordChanges_def filter_map comp_def)

lemma staleStep_fields:
  "currentIndex staleStep = 3 \<and> \<not> isPlaying staleStep \<and> pendingSteps staleStep = [] \<and>
   length (wordChanges staleStep) = 3"
proof -
  have "1 \<in> set (pendingSteps thenPaused)" by (simp add: thenPaused_fields)
  from fireTimer_pending [OF this] obtain due where
    f: "fireTimer 1 thenPaused =
          showNextWord (thenPaused\<lparr>timers := filter (\<lambda>p. fst p \<noteq> 1) (timers thenPaused),
                                   clock := max (clock thenPaused) due\<rparr>)"
    by blast
  let ?s = "thenPaused\<lparr>timers := filter (\<lambda>p. fst p \<noteq> 1) (timers thenPaused),
                        clock := max (clock thenPaused) due\<rparr>"
  have "skipCount ?s = 0" "0 \<le> currentIndex ?s" "currentIndex ?s < int (length (words ?s))"
    "nat (currentIndex ?s) < length (tokens ?s)"
    "collocation (tokens ?s ! nat (currentIndex ?s)) = None"
    by (simp_all add: thenPaused_fields length_paragraphTokens fourWords_token_plain)
  from showNextWord_plain [OF this] show ?thesis
    unfolding staleStep_def f by (simp add: removeTimer_fields thenPaused_fields)
qed

text \<open>
  C1. The claim is that a pause cancels every pending step, that no word is announced
  after \<open>pause()\<close> until \<open>play()\<close>, and that at most one step is ever pending. After
  \<open>load("a b c d")\<close>, \<open>play()\<close>, \<open>play()\<close> two steps are pending, the timers 1 and
  2; \<open>pause()\<close> clears timer 2, the one stored in \<open>timeoutId\<close>, and timer 1 stays
  pending in the paused engine; when timer 1 runs, a third word is announced and the
  cursor moves from 2 to 3, with no \<open>play()\<close> in between.
\<close>

theorem stale_step_after_pause:
  "pendingSteps playedTwice = [1, 2] \<and> isPlaying playedTwice \<and>
   \<not> isPlaying thenPaused \<and> pendingSteps thenPaused = [1] \<and>
   length (wordChanges thenPaused) = 2 \<and> currentIndex thenPaused = 2 \<and>
   length (wordChanges staleStep) = 3 \<and> currentIndex staleStep = 3"
  by (simp add: playedTwice_fields thenPaused_fields staleStep_fields)

text \<open>
  Without a \<open>play()\<close> on a playing engine the discipline of the scheduler holds after
  every command: at most one step is pending, and none when the engine is not playing.
\<close>

lemma getCurrentWord_timers:
  assumes "getCurrentWord s = Inr (cw, s')"
  shows "pendingSteps s' = pendingSteps s \<and> timeoutId s' = timeoutId s \<and>
         nextTimer s' = nextTimer s \<and> isPlaying s' = isPlaying s"
  using getCurrentWord_cases [of s] assms
  by (auto simp: afterWord_frame pendingSteps_def)

lemma pendingSteps_update:
  "pendingSteps (s\<lparr>skipCount := k, currentIndex := i\<rparr>) = pendingSteps s"
  "pendingSteps (s\<lparr>currentIndex := i, skipCount := k\<rparr>) = pendingSteps s"
  "pendingSteps (s\<lparr>cognitive := e\<rparr>) = pendingSteps s"
  by (simp_all add: pendingSteps_def)

text \<open>A step either leaves the timers as they are or, while playing, adds one and stores it.\<close>

lemma showNextWord_pending:
  "(pendingSteps (snd (showNextWord s)) = pendingSteps s \<and>
    timeoutId (snd (showNextWord s)) = timeoutId s \<and>
    nextTimer (snd (showNextWord s)) = nextTimer s \<and>
    (isPlaying (snd (showNextWord s)) \<longrightarrow> isPlaying s)) \<or>
   (isPlaying (snd (showNextWord s)) \<and>
    pendingSteps (snd (showNextWord s)) = pendingSteps s @ [nextTimer s] \<and>
    timeoutId (snd (showNextWord s)) = Some (nextTimer s) \<and>
    nextTimer (snd (showNextWord s)) = Suc (nextTimer s))"
proof -
  consider (skip) "0 < skipCount s"
    | (past_end) "skipCount s = 0" "int (length (words s)) \<le> currentIndex s"
    | (neg) "skipCount s = 0" "currentIndex s < int (length (words s))" "currentIndex s < 0"
    | (word) "skipCount s = 0" "0 \<le> currentIndex s" "currentIndex s < int (length (words s))"
    by linarith
  then show ?thesis
  proof cases
    case skip
    then show ?thesis
      by (simp add: showNextWord_skip scheduleStep_fields pendingSteps_scheduleStep
          pendingSteps_update)
  next
    case past_end
    then show ?thesis
      by (simp add: showNextWord_def complete_reading_fields pendingSteps_simple)
  next
    case neg
    then have "getCurrentWord s = Inl TypeError" by (simp add: getCurrentWord_def)
    with neg show ?thesis by (simp add: showNextWord_def)
  next
    case word
    from showNextWord_word [OF word] show ?thesis by auto
  qed
qed

lemma oneStep_showNextWord:
  assumes "pendingSteps s = []" and "0 < nextTimer s"
  shows "oneStep (snd (showNextWord s))"
  using showNextWord_pending [of s] assms by (auto simp: oneStep_def)

lemma oneStep_idle: "oneStep s \<Longrightarrow> \<not> isPlaying s \<Longrightarrow> pendingSteps s = []"
  by (auto simp: oneStep_def)

lemma oneStep_play: "oneStep s \<Longrightarrow> \<not> isPlaying s \<Longrightarrow> oneStep (snd (play s))"
proof -
  assume a: "oneStep s" "\<not> isPlaying s"
  then have p: "pendingSteps s = []" "0 < nextTimer s" by (auto simp: oneStep_def)
  show ?thesis
  proof (cases "words s = []")
    case True
    with a show ?thesis by (simp add: play_def)
  next
    case False
    have "oneStep (snd (showNextWord (enterPlaying s)))"
      by (rule oneStep_showNextWord) (simp_all add: enterPlaying_fields p)
    with False show ?thesis by (simp add: play_snd)
  qed
qed

lemma pause_idle:
  "oneStep s \<Longrightarrow>
   pendingSteps (snd (pause s)) = [] \<and> \<not> isPlaying (snd (pause s)) \<and>
   nextTimer (snd (pause s)) = nextTimer s"
proof (cases "isPlaying s")
  case True
  assume "oneStep s"
  with True pause_fields [OF True] show ?thesis
    by (auto simp: oneStep_def split: option.splits)
next
  case False
  assume "oneStep s"
  with False show ?thesis by (auto simp: pause_def oneStep_def)
qed

lemma announce_fields:
  "pendingSteps (snd (announce p s)) = pendingSteps s \<and>
   timeoutId (snd (announce p s)) = timeoutId s \<and>
   nextTimer (snd (announce p s)) = nextTimer s \<and>
   isPlaying (snd (announce p s)) = isPlaying s"
  using getCurrentWord_cases [of s]
  by (auto simp: announce_def Let_def notify_fields afterWord_frame pendingSteps_simple)

lemma oneStep_navigate:
  assumes "pendingSteps s = []" and "0 < nextTimer s" and "\<not> isPlaying s"
  shows "oneStep (snd (case announce p s of
                         (Inl err, s3) \<Rightarrow> (Inl err, s3)
                       | (Inr u, s3) \<Rightarrow> resumeIf b s3))"
proof (cases "announce p s")
  case (Pair r s3)
  from announce_fields [of p s] Pair assms
  have f: "pendingSteps s3 = []" "0 < nextTimer s3" "\<not> isPlaying s3" by simp_all
  then have o: "oneStep s3" by (simp add: oneStep_def)
  show ?thesis
  proof (cases r)
    case (Inl err)
    with Pair o show ?thesis by simp
  next
    case (Inr u)
    have "oneStep (snd (resumeIf b s3))"
      using oneStep_play [OF o f(3)] o
      by (cases "play s3") (auto simp: resumeIf_def split: sum.split)
    with Pair Inr show ?thesis by simp
  qed
qed

text \<open>The state of a navigation after its optional pause: no step pending, not playing.\<close>

lemma paused_or_idle:
  assumes "oneStep s"
  shows "pendingSteps (if isPlaying s then snd (pause s) else s) = [] \<and>
         0 < nextTimer (if isPlaying s then snd (pause s) else s) \<and>
         \<not> isPlaying (if isPlaying s then snd (pause s) else s)"
  using assms pause_idle [OF assms] oneStep_idle [OF assms] by (auto simp: oneStep_def)

lemma oneStep_fatigueEvent: "oneStep (fatigueEvent ev s) = oneStep s"
  by (simp add: oneStep_def fatigueEvent_fields pendingSteps_simple split: option.split)

lemma oneStep_goToWord: "oneStep s \<Longrightarrow> oneStep (snd (goToWord i s))"
proof -
  assume o: "oneStep s"
  let ?s1 = "if isPlaying s then snd (pause s) else s"
  have "pendingSteps (?s1\<lparr>currentIndex := a, skipCount := 0\<rparr>) = []"
    "0 < nextTimer (?s1\<lparr>currentIndex := a, skipCount := 0\<rparr>)"
    "\<not> isPlaying (?s1\<lparr>currentIndex := a, skipCount := 0\<rparr>)" for a
    using paused_or_idle [OF o] by (simp_all add: pendingSteps_update)
  from oneStep_navigate [OF this] show ?thesis
    by (simp add: goToWord_def Let_def)
qed

lemma oneStep_next: "oneStep s \<Longrightarrow> oneStep (snd (next_word s))"
proof -
  assume o: "oneStep s"
  let ?s1 = "if isPlaying s then snd (pause s) else s"
  have "pendingSteps (?s1\<lparr>currentIndex := a, skipCount := 0\<rparr>) = []"
    "0 < nextTimer (?s1\<lparr>currentIndex := a, skipCount := 0\<rparr>)"
    "\<not> isPlaying (?s1\<lparr>currentIndex := a, skipCount := 0\<rparr>)" for a
    using paused_or_idle [OF o] by (simp_all add: pendingSteps_update)
  from oneStep_navigate [OF this] o show ?thesis
    by (simp add: next_word_def Let_def)
qed

lemma oneStep_prev: "oneStep s \<Longrightarrow> oneStep (snd (prev s))"
proof -
  assume o: "oneStep s"
  let ?s1 = "if isPlaying s then snd (pause s) else s"
  have "pendingSteps (fatigueEvent Rewind (?s1\<lparr>currentIndex := a, skipCount := 0\<rparr>)) = []"
    "0 < nextTimer (fatigueEvent Rewind (?s1\<lparr>currentIndex := a, skipCount := 0\<rparr>))"
    "\<not> isPlaying (fatigueEvent Rewind (?s1\<lparr>currentIndex := a, skipCount := 0\<rparr>))" for a
    using paused_or_idle [OF o]
    by (simp_all add: pendingSteps_update pendingSteps_simple fatigueEvent_fields)
  from oneStep_navigate [OF this] o show ?thesis
    by (simp add: prev_def Let_def)
qed

lemma oneStep_restart: "oneStep s \<Longrightarrow> oneStep (snd (restart s))"
proof -
  assume o: "oneStep s"
  let ?s4 = "fatigueEvent Start ((snd (pause s))\<lparr>currentIndex := 0, startTime := None,
      pausedTime := None, totalPausedDuration := 0, skipCount := 0,
      cognitive := reset (cognitive (snd (pause s)))\<rparr>)"
  let ?p = "\<lambda>t. OnProgress 1 (length (words t)) 0"
  have f: "pendingSteps ?s4 = []" "0 < nextTimer ?s4"
    using pause_idle [OF o] o
    by (simp_all add: fatigueEvent_fields pendingSteps_simple pendingSteps_def oneStep_def)
  have g: "pendingSteps (snd (announce ?p ?s4)) = []" "0 < nextTimer (snd (announce ?p ?s4))"
    using f by (simp_all add: announce_fields)
  show ?thesis
  proof (cases "announce ?p ?s4")
    case (Pair r s5)
    with g have "pendingSteps s5 = []" "0 < nextTimer s5" by simp_all
    then have "oneStep s5" "oneStep (notify (OnStateChange Ready) s5)"
      by (simp_all add: oneStep_def notify_fields pendingSteps_simple)
    with Pair show ?thesis
      by (cases r) (simp_all add: restart_def Let_def)
  qed
qed

lemma oneStep_load: "oneStep s \<Longrightarrow> oneStep (snd (load txt s))"
  by (auto simp: oneStep_def load_def Let_def notify_def fatigueEvent_def clearPending_def
      pendingSteps_def split: option.splits)

lemma oneStep_destroy: "oneStep s \<Longrightarrow> oneStep (destroy s)"
  by (auto simp: oneStep_def destroy_def Let_def clearPending_def pendingSteps_def
      split: option.splits)

lemma oneStep_fireTimer: "oneStep s \<Longrightarrow> oneStep (snd (fireTimer t s))"
proof (cases "t \<in> set (pendingSteps s)")
  case True
  assume o: "oneStep s"
  with True have p: "pendingSteps s = [t]" by (auto simp: oneStep_def split: option.splits)
  from fireTimer_pending [OF True] obtain due where
    f: "fireTimer t s = showNextWord (s\<lparr>timers := filter (\<lambda>p. fst p \<noteq> t) (timers s),
                                        clock := max (clock s) due\<rparr>)" by blast
  have "oneStep (snd (showNextWord (s\<lparr>timers := filter (\<lambda>p. fst p \<noteq> t) (timers s),
                                        clock := max (clock s) due\<rparr>)))"
    using o by (intro oneStep_showNextWord) (simp_all add: removeTimer_fields p oneStep_def)
  then show ?thesis by (simp add: f)
next
  case False
  assume "oneStep s"
  moreover from False have "map_of (timers s) t = None"
    by (simp add: pendingSteps_def map_of_eq_None_iff)
  ultimately show ?thesis by (simp add: fireTimer_def)
qed

lemma oneStep_run:
  assumes "oneStep s" and "c = Play \<longrightarrow> \<not> isPlaying s"
  shows "oneStep (run c s)"
proof (cases c)
  case Play
  with assms show ?thesis by (simp add: oneStep_play)
next
  case PauseCmd
  with pause_idle [OF assms(1)] assms(1) show ?thesis by (simp add: oneStep_def)
next
  case Toggle
  with pause_idle [OF assms(1)] oneStep_play [OF assms(1)] assms(1) show ?thesis
    by (auto simp: toggle_def oneStep_def split: prod.split)
next
  case (Jump n)
  with oneStep_goToWord [of "fatigueEvent Rewind s"] oneStep_goToWord [of s] assms(1)
  show ?thesis by (simp add: jump_def Let_def oneStep_fatigueEvent)
next
  case CurrentWord
  show ?thesis
  proof (cases "getCurrentWord s")
    case (Inl err)
    with CurrentWord assms(1) show ?thesis by simp
  next
    case (Inr r)
    with getCurrentWord_timers [of s "fst r" "snd r"] CurrentWord assms(1) show ?thesis
      by (simp add: oneStep_def)
  qed
qed (use assms(1) in \<open>simp_all add: oneStep_load oneStep_restart oneStep_goToWord oneStep_next
      oneStep_prev oneStep_destroy oneStep_fireTimer\<close>,
     simp_all add: oneStep_def setWPM_def readerSetMode_def setAdaptiveMode_def updateConfig_def
       pendingSteps_def Let_def)

lemma oneStep_new: "oneStep (newSpeedReader opts now)"
  by (simp add: oneStep_def newSpeedReader_def pendingSteps_def)

lemma oneStep_runAll: "oneStep s \<Longrightarrow> noDoublePlay cs s \<Longrightarrow> oneStep (runAll cs s)"
  by (induction cs arbitrary: s) (simp_all add: oneStep_run)

lemma scheduler_without_double_play:
  "noDoublePlay cs (newSpeedReader opts now) \<Longrightarrow>
   length (pendingSteps (runAll cs (newSpeedReader opts now))) \<le> 1 \<and>
   (\<not> isPlaying (runAll cs (newSpeedReader opts now)) \<longrightarrow>
      pendingSteps (runAll cs (newSpeedReader opts now)) = [])"
proof -
  assume "noDoublePlay cs (newSpeedReader opts now)"
  with oneStep_new have "oneStep (runAll cs (newSpeedReader opts now))"
    by (rule oneStep_runAll)
  then show ?thesis by (auto simp: oneStep_def)
qed

subsection \<open>A collocation shown as one unit\<close>

text \<open>
  The run on the text \<open>in order to succeed\<close>.
\<close>

lemma collocationUnit_after_analysis:
  "fst (collocationUnit (snd (analyseCurrent s))) =
     (case collocation (currentToken s) of
        Some c \<Rightarrow> if skipCount s = 0 then (c_display c, True)
                  else (words s ! nat (currentIndex s), False)
      | None \<Rightarrow> (words s ! nat (currentIndex s), False))"
  by (simp add: collocationUnit_def currentToken_analyseCurrent analyseCurrent_frame
      split: option.split)

lemma collocations_first: "\<exists>rest. collocations = [js ''in'', js ''order'', js ''to''] # rest"
  by (simp add: collocations_def)

lemma in_order_to_detected:
  "detectCollocation [js ''in'', js ''order'', js ''to'', js ''succeed''] 0 =
     Some \<lparr>c_words = [js ''in'', js ''order'', js ''to''], c_length = 3,
           c_display = js ''in order to''\<rparr>"
proof -
  from collocations_first obtain rest where
    c: "collocations = [js ''in'', js ''order'', js ''to''] # rest" by blast
  show ?thesis
    unfolding detectCollocation_def c
    by (simp add: collocationMatches_def char_defs)
qed

lemma parseText_inOrderTo:
  "parseText (js ''in order to succeed'') = [js ''in'', js ''order'', js ''to'', js ''succeed'']"
  by (simp add: parseText_def replaceCR_def char_defs)

lemma preprocessText_inOrderTo:
  "preprocessText (js ''in order to succeed'') =
     paragraphTokens 1 0 0 [js ''in'', js ''order'', js ''to'', js ''succeed'']"
proof -
  have "splitParagraphs 0 [] (js ''in order to succeed'') = [js ''in order to succeed'']"
    by (simp add: paragraphBreakAt_def char_defs)
  moreover have "splitWhitespace [] (js ''in order to succeed'') =
      [js ''in'', js ''order'', js ''to'', js ''succeed'']"
    by (simp add: char_defs)
  ultimately show ?thesis by (simp add: preprocessText_one_paragraph)
qed

lemma inOrderTo_fields:
  "words inOrderTo = [js ''in'', js ''order'', js ''to'', js ''succeed''] \<and>
   tokens inOrderTo = paragraphTokens 1 0 0 [js ''in'', js ''order'', js ''to'', js ''succeed''] \<and>
   currentIndex inOrderTo = 0 \<and> skipCount inOrderTo = 0 \<and> \<not> isPlaying inOrderTo \<and>
   wordChanges inOrderTo = []"
  unfolding inOrderTo_def
  by (simp add: load_fields parseText_inOrderTo preprocessText_inOrderTo newSpeedReader_fields)

lemma inOrderTo_token:
  "collocation (currentToken inOrderTo) =
     Some \<lparr>c_words = [js ''in'', js ''order'', js ''to''], c_length = 3,
           c_display = js ''in order to''\<rparr>"
  by (simp add: currentToken_nth inOrderTo_fields length_paragraphTokens paragraphTokens_nth
      in_order_to_detected)

lemma inOrderTo_first_token:
  "map_option c_length (collocation (tokens inOrderTo ! 0)) = Some 3"
  by (simp add: inOrderTo_fields paragraphTokens_nth in_order_to_detected)

lemma wordChanges_skip: "wordChanges (s\<lparr>skipCount := k\<rparr>) = wordChanges s"
  by (simp add: wordChanges_def)

lemma afterFirstStep_fields:
  "map (map_option displayText) (wordChanges afterFirstStep) = [Some (js ''in order to'')] \<and>
   map (map_option isCollocation) (wordChanges afterFirstStep) = [Some True] \<and>
   words afterFirstStep = [js ''in'', js ''order'', js ''to'', js ''succeed''] \<and>
   currentIndex afterFirstStep = 1 \<and> skipCount afterFirstStep = 2 \<and> \<not> isPlaying afterFirstStep"
proof -
  have "skipCount inOrderTo = 0" "0 \<le> currentIndex inOrderTo"
    "currentIndex inOrderTo < int (length (words inOrderTo))"
    by (simp_all add: inOrderTo_fields)
  from showNextWord_word [OF this] show ?thesis
    unfolding afterFirstStep_def
    by (auto simp: inOrderTo_fields inOrderTo_token collocationUnit_after_analysis
        afterWord_skipCount)
qed

lemma afterSecondStep_fields:
  "wordChanges afterSecondStep = wordChanges afterFirstStep \<and>
   words afterSecondStep = [js ''in'', js ''order'', js ''to'', js ''succeed''] \<and>
   currentIndex afterSecondStep = 2 \<and> skipCount afterSecondStep = 1 \<and> \<not> isPlaying afterSecondStep"
  unfolding afterSecondStep_def by (simp add: showNextWord_skip afterFirstStep_fields wordChanges_update wordChanges_skip)

lemma afterThirdStep_fields:
  "wordChanges afterThirdStep = wordChanges afterFirstStep \<and> currentIndex afterThirdStep = 3 \<and> skipCount afterThirdStep = 0"
  unfolding afterThirdStep_def by (simp add: showNextWord_skip afterSecondStep_fields wordChanges_update wordChanges_skip)

text \<open>
  C3. After \<open>load("in order to succeed")\<close> the first token carries a collocation of
  length 3. The first \<open>showNextWord()\<close> announces one word, displayed as
  \<open>in order to\<close> and flagged as a collocation, and leaves the skip count at 2. After two
  more calls the cursor has moved from 0 to 3, the skip count is back at 0, and the
  announcements are still that single one.
\<close>

theorem collocation_round_trip:
  "map (map_option displayText) (wordChanges afterFirstStep) = [Some (js ''in order to'')] \<and>
   map (map_option isCollocation) (wordChanges afterFirstStep) = [Some True] \<and>
   map_option c_length (collocation (tokens inOrderTo ! 0)) = Some 3 \<and>
   skipCount afterFirstStep = 2 \<and>
   currentIndex inOrderTo = 0 \<and> currentIndex afterThirdStep = 3 \<and> skipCount afterThirdStep = 0 \<and>
   wordChanges afterThirdStep = wordChanges afterFirstStep \<and> length (wordChanges afterThirdStep) = 1"
proof -
  have "length (wordChanges afterFirstStep) = 1"
    using afterFirstStep_fields by (metis length_map length_Cons list.size(3) One_nat_def)
  with inOrderTo_first_token show ?thesis
    by (simp add: afterFirstStep_fields afterThirdStep_fields inOrderTo_fields)
qed

subsection \<open>The current word is not a pure query\<close>



























subsection \<open>Rewind and pause events\<close>

lemma fourWords_counters:
  "rewindCounters fourWords = (0, 0) \<and> pauseCounters fourWords = (0, 0)"
  unfolding fourWords_def
  by (simp add: rewindCounters_def pauseCounters_def load_fields reset_def freshFatigue_def
      freshComprehension_def)

text \<open>
  C7, as the code has it. \<open>prev()\<close> with the cursor after the first word, and
  \<open>jump(n)\<close> with a negative \<open>n\<close> from any cursor, add exactly one to each of the two
  rewind counters, whether the engine is playing or not and however far the cursor
  moves; \<open>prev()\<close> with the cursor on the first word does nothing at all.
\<close>

theorem rewind_event_once:
  "(0 < currentIndex s \<longrightarrow>
      rewindCounters (snd (prev s)) = (Suc (fst (rewindCounters s)), Suc (snd (rewindCounters s)))) \<and>
   (currentIndex s \<le> 0 \<longrightarrow> prev s = (Inr (), s)) \<and>
   (n < 0 \<longrightarrow>
      rewindCounters (snd (jump n s)) = (Suc (fst (rewindCounters s)), Suc (snd (rewindCounters s))))"
  by (simp add: rewindCounters_prev rewindCounters_jump) (simp add: prev_def)

text \<open>
  \<open>prev()\<close> and \<open>jump(-1)\<close> while playing at the second of four words, and
  \<open>jump(-1)\<close> and \<open>prev()\<close> on the first word.
\<close>

theorem rewind_event_once_witness:
  "rewindCounters (snd (prev playedOnce)) = (1, 1) \<and>
   rewindCounters (snd (jump (- 1) playedOnce)) = (1, 1) \<and>
   rewindCounters (snd (jump (- 1) fourWords)) = (1, 1) \<and>
   prev fourWords = (Inr (), fourWords)"
proof -
  have c: "rewindCounters playedOnce = (0, 0)"
    unfolding playedOnce_def by (simp add: rewindCounters_play fourWords_counters)
  have i: "0 < currentIndex playedOnce" and j: "currentIndex fourWords \<le> 0"
    by (simp_all add: playedOnce_fields fourWords_fields)
  from rewind_event_once [of playedOnce "- 1"] rewind_event_once [of fourWords "- 1"] i j c
  show ?thesis by (simp add: fourWords_counters)
qed

text \<open>
  C7 as claimed fails: \<open>prev()\<close> with the cursor at 0 leaves both rewind counters at 0.
\<close>

theorem prev_at_start_fires_no_rewind:
  "currentIndex fourWords = 0 \<and> rewindCounters fourWords = (0, 0) \<and>
   rewindCounters (snd (prev fourWords)) = (0, 0)"
  by (simp add: fourWords_fields fourWords_counters prev_def)

text \<open>
  C10, as the code has it. \<open>pause()\<close> never changes the fatigue level, since its pause
  event carries no duration and such an event leaves the level as it is. While the
  engine is playing, \<open>pause()\<close> adds one to each of the two pause counters; while it is
  not playing, \<open>pause()\<close> returns \<open>false\<close> and changes nothing.
\<close>

theorem pause_counts_without_fatigue:
  "fatigueLevelOf (snd (pause s)) = fatigueLevelOf s \<and>
   fatigueLevel (fatigue (updateFatigue now (Pause None) e)) = fatigueLevel (fatigue e) \<and>
   (isPlaying s \<longrightarrow>
      pauseCounters (snd (pause s)) = (Suc (fst (pauseCounters s)), Suc (snd (pauseCounters s)))) \<and>
   (\<not> isPlaying s \<longrightarrow> pause s = (False, s))"
  by (simp add: pause_def Let_def fatigueLevelOf_def pauseCounters_def)

text \<open>
  \<open>pause()\<close> while playing, after one \<open>play()\<close>, and \<open>pause()\<close> right after
  \<open>load\<close>.
\<close>

theorem pause_counts_without_fatigue_witness:
  "fatigueLevelOf (snd (pause playedOnce)) = fatigueLevelOf playedOnce \<and>
   pauseCounters (snd (pause playedOnce)) =
     (Suc (fst (pauseCounters playedOnce)), Suc (snd (pauseCounters playedOnce))) \<and>
   pause fourWords = (False, fourWords)"
proof -
  have p: "isPlaying playedOnce" and q: "\<not> isPlaying fourWords"
    by (simp_all add: playedOnce_fields fourWords_fields)
  from pause_counts_without_fatigue [of playedOnce] pause_counts_without_fatigue [of fourWords] p q
  show ?thesis by blast
qed

text \<open>
  C10 as claimed fails: \<open>pause()\<close> on an engine that is not playing leaves both pause
  counters at 0.
\<close>

theorem pause_when_not_playing_counts_nothing:
  "\<not> isPlaying fourWords \<and> pauseCounters fourWords = (0, 0) \<and>
   pauseCounters (snd (pause fourWords)) = (0, 0)"
  by (simp add: fourWords_fields fourWords_counters pause_def)

end
